theory Spec2Isabelle
  imports Complex_Main "HOL-Library.Word" "HOL-Library.Monad_Syntax"
begin

unbundle bit_operations_syntax

section \<open>Wave-C (wave5.c): data model\<close>

text \<open>
  A shallow embedding of the code generator, the lexer, the single-pass compiler and the
  ELF writer of \<^verbatim>\<open>src/src/wave5.c\<close>. Every C function keeps its name. The target is
  Linux x86-64: \<^verbatim>\<open>size_t\<close> and \<^verbatim>\<open>uint64_t\<close> are 64 bits, \<^verbatim>\<open>int\<close> is 32 bits.
\<close>

type_synonym u8 = "8 word"
type_synonym u32 = "32 word"
type_synonym u64 = "64 word"

definition MAX_CODE :: nat where "MAX_CODE = 4 * 1024 * 1024"
definition MAX_DATA :: nat where "MAX_DATA = 1024 * 1024"
definition MAX_VARS :: nat where "MAX_VARS = 4096"
definition MAX_FUNCS :: nat where "MAX_FUNCS = 2048"
definition MAX_LABELS :: nat where "MAX_LABELS = 8192"
definition MAX_IDENT :: nat where "MAX_IDENT = 256"
definition MAX_POOLS :: nat where "MAX_POOLS = 16"

datatype VarType = VAR_INT | VAR_FLOAT | VAR_STRING | VAR_ARRAY | VAR_OBJECT

text \<open>
  \<^verbatim>\<open>struct Variable\<close>. The fields \<^verbatim>\<open>float_val\<close> and \<^verbatim>\<open>str_val\<close> are never
  written or read by the program and are left out.
\<close>

record Variable =
  var_name :: string
  var_type :: VarType
  int_val :: u64
  stack_offset :: int
  is_param :: bool
  is_global :: bool
  global_addr :: u64

text \<open>
  \<^verbatim>\<open>struct Function\<close>. \<^verbatim>\<open>param_count\<close> is the length of \<open>params\<close> (the entries of
  the C array past \<^verbatim>\<open>param_count\<close> are never read).
\<close>

record Function =
  fn_name :: string
  code_offset :: nat
  params :: "string list"
  body_pos :: nat
  body_end :: nat

text \<open>
  \<^verbatim>\<open>struct CodeGen\<close>. The buffer \<^verbatim>\<open>code\<close> is allocated once with
  \<^verbatim>\<open>code_cap\<close> bytes; the program only ever writes \<^verbatim>\<open>code[code_pos++]\<close> and, in
  \<^verbatim>\<open>resolve_fixups\<close>, the four bytes of a fixup. The model keeps the written prefix
  \<^verbatim>\<open>code[0 .. code_pos)\<close> as the list \<open>code\<close>, so \<^verbatim>\<open>code_pos\<close> is its length.
  The tables \<^verbatim>\<open>vars\<close>, \<^verbatim>\<open>fixups\<close> and \<^verbatim>\<open>labels\<close> are lists whose length is the
  C counter (\<^verbatim>\<open>var_count\<close>, \<^verbatim>\<open>fixup_count\<close>, \<^verbatim>\<open>label_count\<close>): entries past the
  counter are always overwritten before the counter reaches them. \<^verbatim>\<open>funcs\<close> keeps its
  counter \<open>func_count\<close>, because \<^verbatim>\<open>compile\<close> resets and restores it while the array
  keeps its entries. A fixup is \<open>(pos, label)\<close>, a label is \<open>(name, pos)\<close>.
\<close>

record CodeGen =
  code :: "u8 list"
  code_cap :: nat
  data_pos :: nat
  data_cap :: nat
  vars :: "Variable list"
  stack_size :: int
  global_var_count :: nat
  global_data_pos :: nat
  funcs :: "Function list"
  func_count :: nat
  fixups :: "(nat \<times> string) list"
  labels :: "(string \<times> nat) list"
  when_id :: nat
  loop_id :: nat
  platform :: nat
  raw_mode :: bool
  in_function :: bool

abbreviation code_pos :: "CodeGen \<Rightarrow> nat" where
  "code_pos cg \<equiv> length (code cg)"

definition codegen_init :: CodeGen where
  "codegen_init =
     \<lparr> code = [], code_cap = MAX_CODE, data_pos = 0, data_cap = MAX_DATA, vars = [],
       stack_size = 0, global_var_count = 0, global_data_pos = 0, funcs = [],
       func_count = 0, fixups = [], labels = [], when_id = 0, loop_id = 0,
       platform = 1, raw_mode = False, in_function = False \<rparr>"

section \<open>Byte emission\<close>

definition emit_byte :: "CodeGen \<Rightarrow> u8 \<Rightarrow> CodeGen" where
  "emit_byte cg b = (if code_pos cg < code_cap cg then cg\<lparr>code := code cg @ [b]\<rparr> else cg)"

definition emit_bytes :: "CodeGen \<Rightarrow> u8 list \<Rightarrow> CodeGen" where
  "emit_bytes cg bytes = foldl emit_byte cg bytes"

definition emit_u32 :: "CodeGen \<Rightarrow> u32 \<Rightarrow> CodeGen" where
  "emit_u32 cg v =
     emit_byte (emit_byte (emit_byte (emit_byte cg
       (ucast (v AND 0xff)))
       (ucast (drop_bit 8 v AND 0xff)))
       (ucast (drop_bit 16 v AND 0xff)))
       (ucast (drop_bit 24 v AND 0xff))"

definition emit_i32 :: "CodeGen \<Rightarrow> u32 \<Rightarrow> CodeGen" where
  "emit_i32 cg v = emit_u32 cg v"

definition emit_u64 :: "CodeGen \<Rightarrow> u64 \<Rightarrow> CodeGen" where
  "emit_u64 cg v =
     emit_u32 (emit_u32 cg (ucast (v AND 0xffffffff))) (ucast (drop_bit 32 v AND 0xffffffff))"

section \<open>Labels and fixups\<close>

text \<open>\<^verbatim>\<open>strncpy(dst, name, 63)\<close> into a 64-byte field keeps at most 63 characters.\<close>

definition add_label :: "CodeGen \<Rightarrow> string \<Rightarrow> CodeGen" where
  "add_label cg name =
     (if length (labels cg) < MAX_LABELS
      then cg\<lparr>labels := labels cg @ [(take 63 name, code_pos cg)]\<rparr>
      else cg)"

definition add_fixup :: "CodeGen \<Rightarrow> string \<Rightarrow> CodeGen" where
  "add_fixup cg label =
     emit_u32
       (if length (fixups cg) < MAX_LABELS
        then cg\<lparr>fixups := fixups cg @ [(code_pos cg, take 63 label)]\<rparr>
        else cg)
       0"

text \<open>
  The inner loop of \<^verbatim>\<open>resolve_fixups\<close>: the position of the first label, in table
  order, whose name compares equal (\<^verbatim>\<open>strcmp\<close>), then \<^verbatim>\<open>break\<close>.
\<close>

fun find_label :: "(string \<times> nat) list \<Rightarrow> string \<Rightarrow> nat option" where
  "find_label [] l = None"
| "find_label ((name, pos) # rest) l = (if l = name then Some pos else find_label rest l)"

text \<open>
  \<^verbatim>\<open>cg->code[i] = b\<close> in \<^verbatim>\<open>resolve_fixups\<close> has no bounds check. A write inside the
  written prefix is a plain store. A write at or past \<^verbatim>\<open>code_pos\<close> only happens for a
  fixup recorded while the buffer was full (then \<^verbatim>\<open>code_pos = code_cap\<close>), so it is a
  store outside the allocation: undefined behaviour, \<open>None\<close> here.
\<close>

definition poke_code :: "CodeGen \<Rightarrow> nat \<Rightarrow> u8 \<Rightarrow> CodeGen option" where
  "poke_code cg i b = (if i < code_pos cg then Some (cg\<lparr>code := (code cg)[i := b]\<rparr>) else None)"

text \<open>
  \<^verbatim>\<open>int32_t offset = (int32_t)(target - fix_pos - 4)\<close>: the subtraction is on
  \<^verbatim>\<open>size_t\<close> (modulo \<open>2^64\<close>) and the cast keeps the low 32 bits, which is the integer
  difference modulo \<open>2^32\<close>. \<^verbatim>\<open>offset >> k\<close> on the signed value is an arithmetic shift.
\<close>

definition fixup_offset :: "nat \<Rightarrow> nat \<Rightarrow> u32" where
  "fixup_offset target fix_pos = word_of_int (int target - int fix_pos - 4)"

definition patch_fixup :: "CodeGen \<Rightarrow> nat \<times> string \<Rightarrow> CodeGen option" where
  "patch_fixup cg f =
     (case find_label (labels cg) (snd f) of
        None \<Rightarrow> Some cg
      | Some target \<Rightarrow>
          (let fix_pos = fst f; offset = fixup_offset target fix_pos in
           do {
             cg1 \<leftarrow> poke_code cg fix_pos (ucast (offset AND 0xff));
             cg2 \<leftarrow> poke_code cg1 (fix_pos + 1) (ucast (signed_drop_bit 8 offset AND 0xff));
             cg3 \<leftarrow> poke_code cg2 (fix_pos + 2) (ucast (signed_drop_bit 16 offset AND 0xff));
             poke_code cg3 (fix_pos + 3) (ucast (signed_drop_bit 24 offset AND 0xff))
           }))"

fun resolve_loop :: "(nat \<times> string) list \<Rightarrow> CodeGen \<Rightarrow> CodeGen option" where
  "resolve_loop [] cg = Some cg"
| "resolve_loop (f # fs) cg = do { cg' \<leftarrow> patch_fixup cg f; resolve_loop fs cg' }"

definition resolve_fixups :: "CodeGen \<Rightarrow> CodeGen option" where
  "resolve_fixups cg = resolve_loop (fixups cg) cg"

section \<open>Variable and function lookup\<close>

text \<open>\<^verbatim>\<open>find_var\<close> scans from the most recent entry down to the first.\<close>

definition find_var :: "CodeGen \<Rightarrow> string \<Rightarrow> Variable option" where
  "find_var cg name = find (\<lambda>v. var_name v = name) (rev (vars cg))"

text \<open>
  \<^verbatim>\<open>add_var\<close> returns the new entry, or \<open>None\<close> for the C \<^verbatim>\<open>NULL\<close> when the
  table is full.
\<close>

definition add_var :: "CodeGen \<Rightarrow> string \<Rightarrow> VarType \<Rightarrow> CodeGen \<times> Variable option" where
  "add_var cg name ty =
     (if length (vars cg) \<ge> MAX_VARS then (cg, None)
      else if in_function cg then
        (let v = \<lparr> var_name = take (MAX_IDENT - 1) name, var_type = ty, int_val = 0,
                     stack_offset = - (stack_size cg + 8), is_param = False,
                     is_global = False, global_addr = 0 \<rparr>
         in (cg\<lparr>vars := vars cg @ [v], stack_size := stack_size cg + 8\<rparr>, Some v))
      else
        (let v = \<lparr> var_name = take (MAX_IDENT - 1) name, var_type = ty, int_val = 0,
                     stack_offset = 0, is_param = False, is_global = True,
                     global_addr = word_of_nat (0x600000 + global_data_pos cg) \<rparr>
         in (cg\<lparr>vars := vars cg @ [v], global_data_pos := global_data_pos cg + 8,
                  global_var_count := global_var_count cg + 1\<rparr>, Some v)))"

definition find_func :: "CodeGen \<Rightarrow> string \<Rightarrow> Function option" where
  "find_func cg name = find (\<lambda>f. fn_name f = name) (take (func_count cg) (funcs cg))"

section \<open>x86-64 instruction generation\<close>

definition gen_push_rbp :: "CodeGen \<Rightarrow> CodeGen" where "gen_push_rbp cg = emit_byte cg 0x55"
definition gen_pop_rbp :: "CodeGen \<Rightarrow> CodeGen" where "gen_pop_rbp cg = emit_byte cg 0x5d"
definition gen_push_rax :: "CodeGen \<Rightarrow> CodeGen" where "gen_push_rax cg = emit_byte cg 0x50"
definition gen_pop_rax :: "CodeGen \<Rightarrow> CodeGen" where "gen_pop_rax cg = emit_byte cg 0x58"
definition gen_push_rbx :: "CodeGen \<Rightarrow> CodeGen" where "gen_push_rbx cg = emit_byte cg 0x53"
definition gen_pop_rbx :: "CodeGen \<Rightarrow> CodeGen" where "gen_pop_rbx cg = emit_byte cg 0x5b"

definition gen_mov_rbp_rsp :: "CodeGen \<Rightarrow> CodeGen" where
  "gen_mov_rbp_rsp cg = emit_bytes cg [0x48, 0x89, 0xe5]"
definition gen_mov_rsp_rbp :: "CodeGen \<Rightarrow> CodeGen" where
  "gen_mov_rsp_rbp cg = emit_bytes cg [0x48, 0x89, 0xec]"
definition gen_ret :: "CodeGen \<Rightarrow> CodeGen" where "gen_ret cg = emit_byte cg 0xc3"
definition gen_syscall :: "CodeGen \<Rightarrow> CodeGen" where "gen_syscall cg = emit_bytes cg [0x0f, 0x05]"
definition gen_pause :: "CodeGen \<Rightarrow> CodeGen" where "gen_pause cg = emit_bytes cg [0xf3, 0x90]"
definition gen_nop :: "CodeGen \<Rightarrow> CodeGen" where "gen_nop cg = emit_byte cg 0x90"

definition gen_sub_rsp :: "CodeGen \<Rightarrow> u32 \<Rightarrow> CodeGen" where
  "gen_sub_rsp cg n = emit_i32 (emit_bytes cg [0x48, 0x81, 0xec]) n"

definition gen_add_rsp :: "CodeGen \<Rightarrow> u32 \<Rightarrow> CodeGen" where
  "gen_add_rsp cg n = emit_i32 (emit_bytes cg [0x48, 0x81, 0xc4]) n"

definition gen_mov_rax_imm :: "CodeGen \<Rightarrow> u64 \<Rightarrow> CodeGen" where
  "gen_mov_rax_imm cg v = emit_u64 (emit_bytes cg [0x48, 0xb8]) v"

definition gen_mov_rdi_imm :: "CodeGen \<Rightarrow> u64 \<Rightarrow> CodeGen" where
  "gen_mov_rdi_imm cg v = emit_u64 (emit_bytes cg [0x48, 0xbf]) v"

definition gen_mov_rsi_imm :: "CodeGen \<Rightarrow> u64 \<Rightarrow> CodeGen" where
  "gen_mov_rsi_imm cg v = emit_u64 (emit_bytes cg [0x48, 0xbe]) v"

definition gen_mov_rdx_imm :: "CodeGen \<Rightarrow> u64 \<Rightarrow> CodeGen" where
  "gen_mov_rdx_imm cg v = emit_u64 (emit_bytes cg [0x48, 0xba]) v"

definition gen_mov_rdi_rax :: "CodeGen \<Rightarrow> CodeGen" where
  "gen_mov_rdi_rax cg = emit_bytes cg [0x48, 0x89, 0xc7]"

definition gen_mov_rsi_rax :: "CodeGen \<Rightarrow> CodeGen" where
  "gen_mov_rsi_rax cg = emit_bytes cg [0x48, 0x89, 0xc6]"

definition gen_mov_rdx_rax :: "CodeGen \<Rightarrow> CodeGen" where
  "gen_mov_rdx_rax cg = emit_bytes cg [0x48, 0x89, 0xc2]"

definition gen_mov_rax_rbp_off :: "CodeGen \<Rightarrow> u32 \<Rightarrow> CodeGen" where
  "gen_mov_rax_rbp_off cg off = emit_i32 (emit_bytes cg [0x48, 0x8b, 0x85]) off"

definition gen_mov_rbp_off_rax :: "CodeGen \<Rightarrow> u32 \<Rightarrow> CodeGen" where
  "gen_mov_rbp_off_rax cg off = emit_i32 (emit_bytes cg [0x48, 0x89, 0x85]) off"

definition gen_mov_rax_abs :: "CodeGen \<Rightarrow> u64 \<Rightarrow> CodeGen" where
  "gen_mov_rax_abs cg addr =
     emit_bytes (emit_u64 (emit_bytes cg [0x48, 0xb8]) addr) [0x48, 0x8b, 0x00]"

definition gen_mov_abs_rax :: "CodeGen \<Rightarrow> u64 \<Rightarrow> CodeGen" where
  "gen_mov_abs_rax cg addr =
     emit_bytes (emit_byte (emit_u64 (emit_bytes (emit_byte cg 0x50) [0x48, 0xbb]) addr) 0x58)
       [0x48, 0x89, 0x03]"

text \<open>\<^verbatim>\<open>v->stack_offset\<close> is an \<^verbatim>\<open>int\<close>, passed as \<^verbatim>\<open>int32_t\<close>.\<close>

definition gen_load_var :: "CodeGen \<Rightarrow> Variable \<Rightarrow> CodeGen" where
  "gen_load_var cg v =
     (if is_global v then gen_mov_rax_abs cg (global_addr v)
      else gen_mov_rax_rbp_off cg (word_of_int (stack_offset v)))"

definition gen_store_var :: "CodeGen \<Rightarrow> Variable \<Rightarrow> CodeGen" where
  "gen_store_var cg v =
     (if is_global v then gen_mov_abs_rax cg (global_addr v)
      else gen_mov_rbp_off_rax cg (word_of_int (stack_offset v)))"

definition gen_mul_rax_rbx :: "CodeGen \<Rightarrow> CodeGen" where
  "gen_mul_rax_rbx cg = emit_bytes cg [0x48, 0x0f, 0xaf, 0xc3]"

definition gen_div_rax_rbx :: "CodeGen \<Rightarrow> CodeGen" where
  "gen_div_rax_rbx cg = emit_bytes (emit_bytes cg [0x48, 0x99]) [0x48, 0xf7, 0xfb]"

definition gen_test_rax_rax :: "CodeGen \<Rightarrow> CodeGen" where
  "gen_test_rax_rax cg = emit_bytes cg [0x48, 0x85, 0xc0]"

definition gen_je :: "CodeGen \<Rightarrow> string \<Rightarrow> CodeGen" where
  "gen_je cg label = add_fixup (emit_bytes cg [0x0f, 0x84]) label"

definition gen_jne :: "CodeGen \<Rightarrow> string \<Rightarrow> CodeGen" where
  "gen_jne cg label = add_fixup (emit_bytes cg [0x0f, 0x85]) label"

definition gen_jmp :: "CodeGen \<Rightarrow> string \<Rightarrow> CodeGen" where
  "gen_jmp cg label = add_fixup (emit_byte cg 0xe9) label"

definition gen_call :: "CodeGen \<Rightarrow> string \<Rightarrow> CodeGen" where
  "gen_call cg label = add_fixup (emit_byte cg 0xe8) label"

text \<open>\<^verbatim>\<open>gen_exit(cg, int code)\<close>: the \<^verbatim>\<open>int\<close> is sign-extended to \<^verbatim>\<open>int64_t\<close>.\<close>

definition gen_exit :: "CodeGen \<Rightarrow> u32 \<Rightarrow> CodeGen" where
  "gen_exit cg status = gen_syscall (gen_mov_rdi_imm (gen_mov_rax_imm cg 60) (scast status))"

definition gen_exit_rax :: "CodeGen \<Rightarrow> CodeGen" where
  "gen_exit_rax cg = gen_syscall (gen_mov_rax_imm (emit_bytes cg [0x48, 0x89, 0xc7]) 60)"

definition gen_prologue :: "CodeGen \<Rightarrow> CodeGen" where
  "gen_prologue cg = gen_mov_rbp_rsp (gen_push_rbp cg)"

definition gen_epilogue :: "CodeGen \<Rightarrow> CodeGen" where
  "gen_epilogue cg = gen_ret (gen_pop_rbp (gen_mov_rsp_rbp cg))"

definition gen_event_loop :: "CodeGen \<Rightarrow> CodeGen" where
  "gen_event_loop cg = emit_bytes (gen_pause cg) [0xeb, 0xfc]"

section \<open>ELF generator\<close>

text \<open>
  \<^verbatim>\<open>memcpy(dst + off, &v, n)\<close> of a little-endian integer into a byte array that is
  long enough: the bytes of \<open>v\<close>, least significant first, replace \<open>dst[off .. off + n)\<close>.
\<close>

definition le_bytes :: "nat \<Rightarrow> u64 \<Rightarrow> u8 list" where
  "le_bytes n v = map (\<lambda>k. ucast (drop_bit (8 * k) v)) [0..<n]"

definition memcpy_at :: "u8 list \<Rightarrow> nat \<Rightarrow> u8 list \<Rightarrow> u8 list" where
  "memcpy_at dst off bs = take off dst @ bs @ drop (off + length bs) dst"

definition elf_ehdr :: "u8 list" where
  "elf_ehdr =
     (let entry = (0x400000 + 120 :: u64);
          e0 = (replicate 64 0)[0 := 0x7f, 1 := 0x45, 2 := 0x4c, 3 := 0x46,
                                4 := 2, 5 := 1, 6 := 1, 16 := 2, 18 := 0x3e, 20 := 1];
          e1 = memcpy_at e0 24 (le_bytes 8 entry);
          e2 = memcpy_at e1 32 (le_bytes 8 64)
      in e2[52 := 64, 54 := 56, 56 := 1])"

definition elf_file_size :: "CodeGen \<Rightarrow> u64" where
  "elf_file_size cg = 120 + word_of_nat (code_pos cg + data_pos cg)"

definition elf_mem_size :: "CodeGen \<Rightarrow> u64" where
  "elf_mem_size cg =
     (let base = (0x400000 :: u64);
          global_size = (if global_data_pos cg > 0 then word_of_nat (global_data_pos cg) else 0x1000)
      in 0x600000 - base + global_size + 0x10000)"

definition elf_phdr :: "CodeGen \<Rightarrow> u8 list" where
  "elf_phdr cg =
     (let base = (0x400000 :: u64);
          p0 = memcpy_at (replicate 56 0) 0 (le_bytes 4 1);
          p1 = memcpy_at p0 4 (le_bytes 4 7);
          p2 = memcpy_at p1 16 (le_bytes 8 base);
          p3 = memcpy_at p2 24 (le_bytes 8 base);
          p4 = memcpy_at p3 32 (le_bytes 8 (elf_file_size cg));
          p5 = memcpy_at p4 40 (le_bytes 8 (elf_mem_size cg))
      in memcpy_at p5 48 (le_bytes 8 0x1000))"

text \<open>
  The file system is a parameter: \<open>can_open\<close> says whether \<^verbatim>\<open>fopen(filename, "wb")\<close>
  succeeds. \<open>None\<close> is the early \<^verbatim>\<open>return\<close> (nothing is written, nothing is
  reported); otherwise the result is the content of the file and the mode set by
  \<^verbatim>\<open>chmod\<close> (\<^verbatim>\<open>0755\<close>, decimal 493). The data buffer is never appended to (\<^verbatim>\<open>data_pos\<close> stays 0); its
  \<^verbatim>\<open>data_pos\<close> bytes are uninitialised memory, written here as zeros.
\<close>

definition write_elf :: "CodeGen \<Rightarrow> bool \<Rightarrow> (u8 list \<times> nat) option" where
  "write_elf cg can_open =
     (if \<not> can_open then None
      else Some (elf_ehdr @ elf_phdr cg @ code cg @ replicate (data_pos cg) 0, 493))"

definition write_raw :: "CodeGen \<Rightarrow> bool \<Rightarrow> u8 list option" where
  "write_raw cg can_open = (if \<not> can_open then None else Some (code cg))"

section \<open>The compiler state\<close>

text \<open>
  The telemetry layer (\<^verbatim>\<open>UnifiedField\<close>, \<^verbatim>\<open>TileManager\<close>, \<^verbatim>\<open>FateScheduler\<close>,
  \<^verbatim>\<open>Platform\<close>). A C \<^verbatim>\<open>double\<close> is modelled by a real number, without rounding.
  \<^verbatim>\<open>TileManager.unified\<close> (a pointer that \<^verbatim>\<open>compile\<close> never follows), the adapter
  table (nothing is ever registered) and the constant records \<^verbatim>\<open>Bridge\<close> and
  \<^verbatim>\<open>Compat\<close> are left out, as are \<^verbatim>\<open>current_func\<close> and \<^verbatim>\<open>base_var_count\<close>, which
  are written and never read.
\<close>

record UnifiedField =
  uf_i :: real
  uf_e :: real
  uf_r :: real

record MemoryPool =
  pool_base :: u64
  pool_size :: nat
  pool_used :: nat
  purpose :: string

record TileManager =
  pools :: "MemoryPool list"

record FateScheduler =
  fate_on :: bool
  id_counter :: int
  usage :: real
  gain :: real
  prev_gain :: real
  pattern_count :: int
  fate_field :: UnifiedField
  learned :: "(string \<times> real) list"
  marginal_threshold :: real

record Platform =
  platform_id :: int
  syscall_base :: u64
  probed :: bool

text \<open>
  \<^verbatim>\<open>struct Compiler\<close>. \<^verbatim>\<open>len\<close> is \<^verbatim>\<open>strlen(source)\<close>: \<open>source\<close> holds the text up to
  its first NUL, so \<open>len\<close> is its length. \<^verbatim>\<open>loop_labels\<close> holds the live entries
  \<open>(start_label, end_label)\<close>, innermost last; \<^verbatim>\<open>loop_depth\<close> is its length.
\<close>

record Compiler =
  source :: string
  pos :: nat
  fate_mode :: bool
  loop_labels :: "(string \<times> string) list"
  unified :: UnifiedField
  tile :: TileManager
  fate :: FateScheduler
  codegen :: CodeGen
  platform_info :: Platform

definition len :: "Compiler \<Rightarrow> nat" where
  "len c = length (source c)"

definition on_codegen :: "(CodeGen \<Rightarrow> CodeGen) \<Rightarrow> Compiler \<Rightarrow> Compiler" where
  "on_codegen f c = c\<lparr>codegen := f (codegen c)\<rparr>"

section \<open>Telemetry\<close>

definition unified_init :: UnifiedField where
  "unified_init = \<lparr> uf_i = 0.5, uf_e = 0.5, uf_r = 0.5 \<rparr>"

definition tile_init :: TileManager where
  "tile_init = \<lparr> pools = [] \<rparr>"

definition tile_add_pool :: "TileManager \<Rightarrow> u64 \<Rightarrow> nat \<Rightarrow> string \<Rightarrow> TileManager" where
  "tile_add_pool t base sz purp =
     (if length (pools t) \<ge> MAX_POOLS then t
      else t\<lparr>pools := pools t @
             [\<lparr> pool_base = base, pool_size = sz, pool_used = 0, purpose = take 31 purp \<rparr>]\<rparr>)"

definition tile_total_used :: "TileManager \<Rightarrow> nat" where
  "tile_total_used t = sum_list (map pool_used (pools t))"

definition tile_ratio :: "TileManager \<Rightarrow> real" where
  "tile_ratio t =
     (let total = sum_list (map pool_size (pools t)); used = sum_list (map pool_used (pools t))
      in if total > 0 then real used / real total else 0)"

definition fate_init :: FateScheduler where
  "fate_init =
     \<lparr> fate_on = True, id_counter = 0, usage = 0, gain = 0, prev_gain = 0, pattern_count = 0,
       fate_field = unified_init, learned = [], marginal_threshold = 0.05 \<rparr>"

fun learn_update :: "(string \<times> real) list \<Rightarrow> string \<Rightarrow> real \<Rightarrow> (string \<times> real) list option" where
  "learn_update [] k v = None"
| "learn_update ((k', v') # rest) k v =
     (if k' = k then Some ((k', v) # rest)
      else map_option (\<lambda>r. (k', v') # r) (learn_update rest k v))"

definition fate_learn :: "FateScheduler \<Rightarrow> string \<Rightarrow> real \<Rightarrow> FateScheduler" where
  "fate_learn f k v =
     (case learn_update (learned f) (take 63 k) v of
        Some l \<Rightarrow> f\<lparr>learned := l\<rparr>
      | None \<Rightarrow> if length (learned f) < 256 then f\<lparr>learned := learned f @ [(take 63 k, v)]\<rparr> else f)"

definition fate_observe :: "FateScheduler \<Rightarrow> TileManager \<Rightarrow> FateScheduler" where
  "fate_observe f t =
     (if \<not> fate_on f then f else f\<lparr>usage := tile_ratio t, pattern_count := pattern_count f + 1\<rparr>)"

definition fate_adapt :: "FateScheduler \<Rightarrow> FateScheduler" where
  "fate_adapt f =
     (if \<not> fate_on f then f
      else
        (let f1 = (if usage f > 0.7
                   then f\<lparr>fate_field := (fate_field f)\<lparr>uf_e := min 1 (uf_e (fate_field f) + 0.1)\<rparr>\<rparr>
                   else f)
         in if pattern_count f1 > 100
            then f1\<lparr>fate_field := (fate_field f1)\<lparr>uf_r := min 1 (uf_r (fate_field f1) + 0.05)\<rparr>\<rparr>
            else f1))"

definition fate_should_collapse :: "FateScheduler \<Rightarrow> bool \<times> FateScheduler" where
  "fate_should_collapse f = (gain f - prev_gain f < marginal_threshold f, f\<lparr>prev_gain := gain f\<rparr>)"

definition fate_collapse :: "FateScheduler \<Rightarrow> FateScheduler" where
  "fate_collapse f =
     (let f1 = fate_learn f ''static:i'' (uf_i (fate_field f));
          f2 = fate_learn f1 ''static:e'' (uf_e (fate_field f1));
          f3 = fate_learn f2 ''static:r'' (uf_r (fate_field f2))
      in f3\<lparr>fate_on := False\<rparr>)"

definition fate_tick :: "FateScheduler \<Rightarrow> TileManager \<Rightarrow> FateScheduler" where
  "fate_tick f t =
     (if \<not> fate_on f then f
      else (let (collapse, f1) = fate_should_collapse (fate_adapt (fate_observe f t))
            in if collapse then fate_collapse f1 else f1))"

definition platform_init :: Platform where
  "platform_init = \<lparr> platform_id = 0, syscall_base = 0, probed = False \<rparr>"

definition platform_probe :: "Platform \<Rightarrow> FateScheduler \<Rightarrow> Platform \<times> FateScheduler" where
  "platform_probe p f =
     (if probed p then (p, f)
      else
        (let f1 = f\<lparr>id_counter := id_counter f + 1\<rparr>;
             p1 = p\<lparr>platform_id := id_counter f1, syscall_base := 0, probed := True\<rparr>;
             f2 = fate_learn f1 ''platform.id'' (real_of_int (platform_id p1));
             f3 = fate_learn f2 ''platform.syscall_base'' 0
         in (p1, f3)))"

definition compat_probe :: "FateScheduler \<Rightarrow> FateScheduler" where
  "compat_probe f =
     fate_learn (fate_learn (fate_learn (fate_learn (fate_learn f
       ''probe.display'' 1) ''probe.input'' 1) ''probe.storage'' 1) ''probe.network'' 1)
       ''probe.audio'' 1"

text \<open>\<^verbatim>\<open>compiler_init\<close>. \<^verbatim>\<open>strlen\<close> stops at the first NUL of the text.\<close>

definition compiler_init :: "string \<Rightarrow> Compiler" where
  "compiler_init src =
     (let (p, f) = platform_probe platform_init fate_init
      in \<lparr> source = takeWhile (\<lambda>ch. ch \<noteq> CHR 0x00) src, pos = 0, fate_mode = True,
           loop_labels = [], unified = unified_init, tile = tile_init,
           fate = compat_probe f, codegen = codegen_init, platform_info = p \<rparr>)"

section \<open>Parsing helper functions\<close>

text \<open>
  The \<^verbatim>\<open><ctype.h>\<close> predicates in the C locale (the program never calls
  \<^verbatim>\<open>setlocale\<close>), on the character's code.
\<close>

definition isdigit :: "char \<Rightarrow> bool" where
  "isdigit ch = (48 \<le> (of_char ch :: nat) \<and> (of_char ch :: nat) \<le> 57)"

definition isalpha :: "char \<Rightarrow> bool" where
  "isalpha ch = ((65 \<le> (of_char ch :: nat) \<and> (of_char ch :: nat) \<le> 90) \<or>
                 (97 \<le> (of_char ch :: nat) \<and> (of_char ch :: nat) \<le> 122))"

definition isalnum :: "char \<Rightarrow> bool" where
  "isalnum ch = (isalpha ch \<or> isdigit ch)"

definition isxdigit :: "char \<Rightarrow> bool" where
  "isxdigit ch = (isdigit ch \<or> (65 \<le> (of_char ch :: nat) \<and> (of_char ch :: nat) \<le> 70) \<or>
                  (97 \<le> (of_char ch :: nat) \<and> (of_char ch :: nat) \<le> 102))"

definition isspace :: "char \<Rightarrow> bool" where
  "isspace ch = ((of_char ch :: nat) = 32 \<or> (9 \<le> (of_char ch :: nat) \<and> (of_char ch :: nat) \<le> 13))"

definition peek :: "Compiler \<Rightarrow> char" where
  "peek c = (if pos c < len c then source c ! pos c else CHR 0x00)"

definition peek_n :: "Compiler \<Rightarrow> nat \<Rightarrow> char" where
  "peek_n c n = (if pos c + n < len c then source c ! (pos c + n) else CHR 0x00)"

text \<open>\<^verbatim>\<open>advance\<close> returns the character \<open>peek c\<close> and moves the cursor.\<close>

definition advance :: "Compiler \<Rightarrow> Compiler" where
  "advance c = (if pos c < len c then c\<lparr>pos := pos c + 1\<rparr> else c)"

text \<open>The idiom \<^verbatim>\<open>if (peek(c) == ch) advance(c);\<close>.\<close>

definition accept :: "char \<Rightarrow> Compiler \<Rightarrow> Compiler" where
  "accept ch c = (if peek c = ch then advance c else c)"

text \<open>
  The loop \<^verbatim>\<open>while (c->pos < c->len && P(peek(c))) advance(c);\<close> from position \<open>p\<close>:
  it stops at the first character that fails \<open>P\<close>, or at the end.
\<close>

definition scan_while :: "(char \<Rightarrow> bool) \<Rightarrow> string \<Rightarrow> nat \<Rightarrow> nat" where
  "scan_while P s p = p + length (takeWhile P (drop p s))"

definition skip_line_from :: "string \<Rightarrow> nat \<Rightarrow> nat" where
  "skip_line_from s p =
     (let q = scan_while (\<lambda>ch. ch \<noteq> CHR 0x0A) s p
      in if q < length s \<and> s ! q = CHR 0x0A then q + 1 else q)"

definition skip_line :: "Compiler \<Rightarrow> Compiler" where
  "skip_line c = c\<lparr>pos := skip_line_from (source c) (pos c)\<rparr>"

lemma scan_while_ge: "p \<le> scan_while P s p"
  by (simp add: scan_while_def)

lemma scan_while_gt: "p < length s \<Longrightarrow> P (s ! p) \<Longrightarrow> p < scan_while P s p"
  by (simp add: scan_while_def Cons_nth_drop_Suc [symmetric])

lemma skip_line_from_ge: "p \<le> skip_line_from s p"
  using scan_while_ge [of p "\<lambda>ch. ch \<noteq> CHR 0x0A" s]
  by (simp add: skip_line_from_def Let_def)

text \<open>
  \<^verbatim>\<open>skip_whitespace\<close>: blanks, tabs, newlines, carriage returns and \<^verbatim>\<open>//\<close> comments.
  After the two \<^verbatim>\<open>advance\<close> calls over \<^verbatim>\<open>//\<close> the rest of the line is skipped as by
  \<^verbatim>\<open>skip_line\<close>.
\<close>

function skip_ws :: "string \<Rightarrow> nat \<Rightarrow> nat" where
  "skip_ws s p =
     (if p < length s then
        (if s ! p = CHR '' '' \<or> s ! p = CHR 0x09 \<or> s ! p = CHR 0x0A \<or> s ! p = CHR 0x0D
         then skip_ws s (p + 1)
         else if s ! p = CHR ''/'' \<and> p + 1 < length s \<and> s ! (p + 1) = CHR ''/''
         then skip_ws s (skip_line_from s (p + 2))
         else p)
      else p)"
  by pat_completeness auto
termination
proof (relation "measure (\<lambda>(s, p). length s - p)")
  show "wf (measure (\<lambda>(s, p). length s - p))"
    by simp
next
  fix s :: string and p :: nat
  assume "p < length s"
  then show "((s, p + 1), (s, p)) \<in> measure (\<lambda>(s, p). length s - p)"
    by simp
next
  fix s :: string and p :: nat
  assume "p < length s"
  moreover have "p + 2 \<le> skip_line_from s (p + 2)"
    by (rule skip_line_from_ge)
  ultimately show "((s, skip_line_from s (p + 2)), (s, p)) \<in> measure (\<lambda>(s, p). length s - p)"
    by simp
qed

declare skip_ws.simps [simp del]

definition skip_whitespace :: "Compiler \<Rightarrow> Compiler" where
  "skip_whitespace c = c\<lparr>pos := skip_ws (source c) (pos c)\<rparr>"

text \<open>
  \<^verbatim>\<open>match\<close>: \<^verbatim>\<open>strncmp\<close> of the next \<^verbatim>\<open>strlen(str)\<close> characters, when that many remain.
\<close>

definition match :: "Compiler \<Rightarrow> string \<Rightarrow> bool" where
  "match c str =
     (if pos c + length str > len c then False
      else take (length str) (drop (pos c) (source c)) = str)"

definition is_ident_start :: "char \<Rightarrow> bool" where
  "is_ident_start ch = (isalpha ch \<or> ch = CHR ''_'')"

definition is_ident_char :: "char \<Rightarrow> bool" where
  "is_ident_char ch = (isalnum ch \<or> ch = CHR ''_'' \<or> ch = CHR ''.'')"

definition parse_ident :: "Compiler \<Rightarrow> string \<times> Compiler" where
  "parse_ident c =
     (let buf = take (MAX_IDENT - 1) (takeWhile is_ident_char (drop (pos c) (source c)))
      in (buf, c\<lparr>pos := pos c + length buf\<rparr>))"

text \<open>
  \<^verbatim>\<open>strtol(hex, NULL, 16)\<close> on the two characters of a \<^verbatim>\<open>\xHH\<close> escape, as the C
  library reads them: leading white space, an optional sign, then hexadecimal digits as
  far as they go (a \<^verbatim>\<open>0x\<close> prefix with no digit after it reads as 0).
\<close>

definition hex_digit :: "char \<Rightarrow> int option" where
  "hex_digit ch =
     (let n = (of_char ch :: nat) in
      if 48 \<le> n \<and> n \<le> 57 then Some (int n - 48)
      else if 97 \<le> n \<and> n \<le> 102 then Some (int n - 97 + 10)
      else if 65 \<le> n \<and> n \<le> 70 then Some (int n - 65 + 10)
      else None)"

definition strtol16 :: "char \<Rightarrow> char \<Rightarrow> int" where
  "strtol16 h1 h2 =
     (if isspace h1 \<or> h1 = CHR ''+'' then (case hex_digit h2 of Some v \<Rightarrow> v | None \<Rightarrow> 0)
      else if h1 = CHR ''-'' then (case hex_digit h2 of Some v \<Rightarrow> - v | None \<Rightarrow> 0)
      else (case hex_digit h1 of
              None \<Rightarrow> 0
            | Some v1 \<Rightarrow> (case hex_digit h2 of Some v2 \<Rightarrow> 16 * v1 + v2 | None \<Rightarrow> v1)))"

text \<open>
  The loop of \<^verbatim>\<open>parse_string\<close> on the characters that remain, with \<open>bi\<close> bytes already
  in the buffer: the bytes it appends and the number of characters it consumes. The
  buffer holds bytes (\<^verbatim>\<open>\0\<close> and \<^verbatim>\<open>\x00\<close> put a NUL into it).
\<close>

definition byte_then :: "u8 \<Rightarrow> nat \<Rightarrow> u8 list \<times> nat \<Rightarrow> u8 list \<times> nat" where
  "byte_then b k r = (b # fst r, k + snd r)"

fun parse_string_loop :: "string \<Rightarrow> nat \<Rightarrow> u8 list \<times> nat" where
  "parse_string_loop [] bi = ([], 0)"
| "parse_string_loop (ch # rest) bi =
     (if ch = CHR 0x22 \<or> \<not> bi < 4095 then ([], 0)
      else if ch = CHR 0x5C then
        (case rest of
           [] \<Rightarrow> ([of_char ch], 1)
         | esc # rest1 \<Rightarrow>
             if esc = CHR ''n'' then byte_then 0x0A 2 (parse_string_loop rest1 (bi + 1))
             else if esc = CHR ''t'' then byte_then 0x09 2 (parse_string_loop rest1 (bi + 1))
             else if esc = CHR ''r'' then byte_then 0x0D 2 (parse_string_loop rest1 (bi + 1))
             else if esc = CHR ''0'' then byte_then 0 2 (parse_string_loop rest1 (bi + 1))
             else
               (case (esc = CHR ''x'', rest1) of
                  (True, h1 # h2 # rest2) \<Rightarrow>
                    byte_then (word_of_int (strtol16 h1 h2)) 4 (parse_string_loop rest2 (bi + 1))
                | _ \<Rightarrow> byte_then (of_char esc) 2 (parse_string_loop rest1 (bi + 1))))
      else byte_then (of_char ch) 1 (parse_string_loop rest (bi + 1)))"

definition parse_string :: "Compiler \<Rightarrow> u8 list \<times> Compiler" where
  "parse_string c =
     (let c1 = accept (CHR 0x22) c;
          r = parse_string_loop (drop (pos c1) (source c1)) 0;
          c2 = c1\<lparr>pos := pos c1 + snd r\<rparr>
      in (fst r, accept (CHR 0x22) c2))"

text \<open>\<^verbatim>\<open>strlen\<close> of the NUL-terminated buffer.\<close>

definition strlen :: "u8 list \<Rightarrow> nat" where
  "strlen buf = length (takeWhile (\<lambda>b. b \<noteq> 0) buf)"

text \<open>
  \<^verbatim>\<open>parse_number\<close>. \<^verbatim>\<open>num\<close> is an \<^verbatim>\<open>int64_t\<close>; arithmetic on it wraps around (an
  overflow is undefined in C; the compiled program wraps). In the decimal part
  \<^verbatim>\<open>(advance(c) - '0') * frac\<close> is a \<^verbatim>\<open>double\<close> product and the cast to \<^verbatim>\<open>int64_t\<close>
  truncates it; the product is never negative, so the truncation is the floor.
\<close>

definition digit_step :: "u64 \<Rightarrow> char \<Rightarrow> u64" where
  "digit_step num ch = num * 10 + (of_char ch - 48)"

definition hex_step :: "u64 \<Rightarrow> char \<Rightarrow> u64" where
  "hex_step num ch =
     (let n = (of_char ch :: nat) in
      if 48 \<le> n \<and> n \<le> 57 then num * 16 + (of_char ch - 48)
      else if 97 \<le> n \<and> n \<le> 102 then num * 16 + (of_char ch - 97 + 10)
      else if 65 \<le> n \<and> n \<le> 70 then num * 16 + (of_char ch - 65 + 10)
      else num)"

definition frac_step :: "u64 \<times> real \<Rightarrow> char \<Rightarrow> u64 \<times> real" where
  "frac_step st ch =
     (fst st + word_of_int \<lfloor>real (of_char ch - 48) * snd st\<rfloor>, snd st * 0.1)"

definition parse_number :: "Compiler \<Rightarrow> u64 \<times> Compiler" where
  "parse_number c =
     (let neg = (peek c = CHR ''-'');
          c1 = (if neg then advance c else c);
          hex = (peek c1 = CHR ''0'' \<and> peek_n c1 1 = CHR ''x'');
          c2 = (if hex then advance (advance c1) else c1);
          ds = takeWhile (if hex then isxdigit else isdigit) (drop (pos c2) (source c2));
          num = foldl (if hex then hex_step else digit_step) 0 ds;
          c3 = c2\<lparr>pos := pos c2 + length ds\<rparr>;
          dot = (peek c3 = CHR ''.'');
          c4 = (if dot then advance c3 else c3);
          fs = (if dot then takeWhile isdigit (drop (pos c4) (source c4)) else []);
          num' = fst (foldl frac_step (num, 0.1) fs);
          c5 = c4\<lparr>pos := pos c4 + length fs\<rparr>
      in (if neg then - num' else num', c5))"

section \<open>Expression compilation\<close>

text \<open>
  \<^verbatim>\<open>compile_expr\<close>, \<^verbatim>\<open>compile_statement\<close> and \<^verbatim>\<open>compile_block\<close> are recursive, and some
  of their loops do not end on every input (an argument list or a \<^verbatim>\<open>unified\<close> block
  holding a character that no rule consumes is compiled forever). They carry a fuel \<open>n\<close>
  that bounds the depth of the recursion and the number of iterations of each loop; the
  result \<open>None\<close> means that the fuel ran out, or that the C program has no defined
  behaviour. The recursive call is a parameter \<open>expr\<close> (or \<open>stmt\<close>) of every function that
  makes one; \<open>compile_expr\<close> and \<open>compile_statement\<close> tie the knot.
\<close>

type_synonym expr_fn = "Compiler \<Rightarrow> (Compiler \<times> u64) option"
type_synonym stmt_fn = "Compiler \<Rightarrow> Compiler option"

text \<open>
  The string literal: \<^verbatim>\<open>emit_byte(len + 1)\<close> keeps the low 8 bits of the \<^verbatim>\<open>size_t\<close>;
  the loop \<^verbatim>\<open>for (i = 0; i <= len; i++) emit_byte(str[i])\<close> emits the \<open>len\<close> bytes
  before the first NUL and that NUL.
\<close>

definition expr_string :: "Compiler \<Rightarrow> Compiler \<times> u64" where
  "expr_string c =
     (let (str, c1) = parse_string c;
          n = strlen str;
          g1 = emit_byte (emit_byte (codegen c1) 0xeb) (of_nat (n + 1));
          str_pos = code_pos g1;
          g2 = emit_bytes g1 (take n str @ [0]);
          rel = - (word_of_nat (code_pos g2 - str_pos + 7) :: u32);
          g3 = emit_i32 (emit_bytes g2 [0x48, 0x8d, 0x05]) rel
      in (c1\<lparr>codegen := g3\<rparr>, 0))"

definition gen_getchar :: "CodeGen \<Rightarrow> CodeGen" where
  "gen_getchar g =
     gen_add_rsp
       (emit_bytes
         (gen_syscall
           (gen_mov_rdx_imm
             (emit_bytes (gen_mov_rdi_imm (gen_mov_rax_imm (gen_sub_rsp g 16) 0) 0)
                [0x48, 0x8d, 0x34, 0x24])
             1))
         [0x48, 0x0f, 0xb6, 0x04, 0x24])
       16"

definition expr_getchar :: "Compiler \<Rightarrow> Compiler \<times> u64" where
  "expr_getchar c = (on_codegen gen_getchar (accept (CHR '')'') c), 0)"

definition expr_peek :: "expr_fn \<Rightarrow> Compiler \<Rightarrow> (Compiler \<times> u64) option" where
  "expr_peek expr c =
     do {
       (c1, _) \<leftarrow> expr c;
       Some (on_codegen (\<lambda>g. emit_bytes g [0x48, 0x0f, 0xb6, 0x00])
               (accept (CHR '')'') (skip_whitespace c1)), 0)
     }"

definition expr_poke :: "expr_fn \<Rightarrow> Compiler \<Rightarrow> (Compiler \<times> u64) option" where
  "expr_poke expr c =
     do {
       (c1, _) \<leftarrow> expr c;
       (c2, _) \<leftarrow> expr (skip_whitespace (accept (CHR '','') (skip_whitespace
                            (on_codegen gen_push_rax c1))));
       Some (on_codegen (\<lambda>g. emit_bytes (gen_pop_rbx g) [0x88, 0x03])
               (accept (CHR '')'') (skip_whitespace c2)), 0)
     }"

text \<open>
  \<^verbatim>\<open>compile_expr(c); gen_push_rax(cg); skip_whitespace(c); if (peek(c) == ',') advance(c);\<close>
\<close>

definition arg_push :: "expr_fn \<Rightarrow> Compiler \<Rightarrow> Compiler option" where
  "arg_push expr c =
     do {
       (c1, _) \<leftarrow> expr c;
       Some (accept (CHR '','') (skip_whitespace (on_codegen gen_push_rax c1)))
     }"

text \<open>The three-argument system calls \<^verbatim>\<open>open\<close>, \<^verbatim>\<open>read\<close> and \<^verbatim>\<open>write\<close> share one shape.\<close>

definition gen_syscall3 :: "CodeGen \<Rightarrow> u64 \<Rightarrow> CodeGen" where
  "gen_syscall3 g nr =
     gen_syscall (gen_mov_rax_imm
       (gen_mov_rdi_rax (gen_pop_rax (gen_mov_rsi_rax (gen_pop_rax (gen_mov_rdx_rax g))))) nr)"

definition syscall3 :: "expr_fn \<Rightarrow> u64 \<Rightarrow> Compiler \<Rightarrow> Compiler option" where
  "syscall3 expr nr c =
     do {
       c1 \<leftarrow> arg_push expr c;
       c2 \<leftarrow> arg_push expr c1;
       (c3, _) \<leftarrow> expr c2;
       Some (on_codegen (\<lambda>g. gen_syscall3 g nr) c3)
     }"

definition syscall_close :: "expr_fn \<Rightarrow> Compiler \<Rightarrow> Compiler option" where
  "syscall_close expr c =
     do {
       (c1, _) \<leftarrow> expr c;
       Some (on_codegen (\<lambda>g. gen_syscall (gen_mov_rax_imm (gen_mov_rdi_rax g) 3)) c1)
     }"

definition gen_mmap :: "CodeGen \<Rightarrow> CodeGen" where
  "gen_mmap g =
     gen_syscall (gen_mov_rax_imm
       (gen_mov_rdi_rax (gen_pop_rax (gen_mov_rsi_rax (gen_pop_rax (gen_mov_rdx_rax (gen_pop_rax
         (emit_bytes (emit_bytes (emit_bytes g [0x49, 0x89, 0xc1]) [0x41, 0x58]) [0x41, 0x5a])))))))
       9)"

definition syscall_mmap :: "expr_fn \<Rightarrow> Compiler \<Rightarrow> Compiler option" where
  "syscall_mmap expr c =
     do {
       c1 \<leftarrow> arg_push expr c;
       c2 \<leftarrow> arg_push expr c1;
       c3 \<leftarrow> arg_push expr c2;
       c4 \<leftarrow> arg_push expr c3;
       c5 \<leftarrow> arg_push expr c4;
       (c6, _) \<leftarrow> expr c5;
       Some (on_codegen gen_mmap c6)
     }"

text \<open>
  The \<^verbatim>\<open>syscall\<close> built-ins of \<^verbatim>\<open>compile_expr\<close>. \<^verbatim>\<open>syscall_name\<close> is \<^verbatim>\<open>name + 7\<close>
  without its leading dot, or a second identifier read after a dot.
\<close>

definition expr_syscall :: "expr_fn \<Rightarrow> string \<Rightarrow> Compiler \<Rightarrow> (Compiler \<times> u64) option" where
  "expr_syscall expr name c =
     (let (syscall_name, c1) =
            (if take 1 (drop 7 name) = ''.'' then (drop 8 name, c)
             else if peek c = CHR ''.'' then parse_ident (advance c)
             else (drop 7 name, c));
          c2 = accept (CHR ''('') (skip_whitespace c1)
      in do {
        c3 \<leftarrow> (if syscall_name = ''open'' then syscall3 expr 2 c2
               else if syscall_name = ''read'' then syscall3 expr 0 c2
               else if syscall_name = ''write'' then syscall3 expr 1 c2
               else if syscall_name = ''close'' then syscall_close expr c2
               else if syscall_name = ''mmap'' then syscall_mmap expr c2
               else Some c2);
        Some (accept (CHR '')'') (skip_whitespace c3), 0)
      })"

text \<open>
  The argument loop of a user-function call inside an expression,
  \<^verbatim>\<open>while (peek(c) != ')' && c->pos < c->len && argc < 16)\<close>. It runs at most 16 times,
  so the fuel 17 it is given below never runs out.
\<close>

fun expr_args :: "nat \<Rightarrow> expr_fn \<Rightarrow> Compiler \<Rightarrow> nat \<Rightarrow> (Compiler \<times> nat) option" where
  "expr_args 0 expr c argc = None"
| "expr_args (Suc k) expr c argc =
     (if peek c \<noteq> CHR '')'' \<and> pos c < len c \<and> argc < 16 then
        do {
          (c1, _) \<leftarrow> expr c;
          expr_args k expr
            (skip_whitespace (accept (CHR '','') (skip_whitespace (on_codegen gen_push_rax c1))))
            (argc + 1)
        }
      else Some (c, argc))"

text \<open>\<^verbatim>\<open>gen_add_rsp(cg, argc * 8)\<close>: the \<^verbatim>\<open>int\<close> product, passed as \<^verbatim>\<open>int32_t\<close>.\<close>

definition gen_call_cleanup :: "CodeGen \<Rightarrow> string \<Rightarrow> nat \<Rightarrow> CodeGen" where
  "gen_call_cleanup g name argc =
     (let g1 = gen_call g name
      in if argc > 0 then gen_add_rsp g1 (of_nat (argc * 8)) else g1)"

definition expr_call :: "expr_fn \<Rightarrow> string \<Rightarrow> Compiler \<Rightarrow> (Compiler \<times> u64) option" where
  "expr_call expr name c =
     do {
       (c1, argc) \<leftarrow> expr_args 17 expr c 0;
       Some (on_codegen (\<lambda>g. gen_call_cleanup g name argc) (accept (CHR '')'') c1), 0)
     }"

definition expr_var :: "string \<Rightarrow> Compiler \<Rightarrow> Compiler \<times> u64" where
  "expr_var name c =
     (case find_var (codegen c) name of
        Some v \<Rightarrow> (on_codegen (\<lambda>g. gen_load_var g v) c, int_val v)
      | None \<Rightarrow> (on_codegen (\<lambda>g. gen_mov_rax_imm g 0) c, 0))"

definition expr_ident :: "expr_fn \<Rightarrow> Compiler \<Rightarrow> (Compiler \<times> u64) option" where
  "expr_ident expr c =
     (let (name, c1) = parse_ident c;
          c2 = skip_whitespace c1
      in if peek c2 = CHR ''('' then
           (let c3 = skip_whitespace (advance c2)
            in if name = ''getchar'' then Some (expr_getchar c3)
               else if name = ''peek'' then expr_peek expr c3
               else if name = ''poke'' then expr_poke expr c3
               else if take 7 name = ''syscall'' then expr_syscall expr name c3
               else expr_call expr name c3)
         else Some (expr_var name c2))"

text \<open>The primary expression: everything of \<^verbatim>\<open>compile_expr\<close> before the operator loop.\<close>

definition compile_primary :: "expr_fn \<Rightarrow> Compiler \<Rightarrow> (Compiler \<times> u64) option" where
  "compile_primary expr c0 =
     (let c = skip_whitespace c0
      in if isdigit (peek c) \<or> (peek c = CHR ''-'' \<and> isdigit (peek_n c 1)) then
           (let (left, c1) = parse_number c
            in Some (on_codegen (\<lambda>g. gen_mov_rax_imm g left) c1, left))
         else if peek c = CHR 0x22 then Some (expr_string c)
         else if is_ident_start (peek c) then expr_ident expr c
         else if peek c = CHR ''('' then
           do {
             (c1, left) \<leftarrow> expr (advance c);
             Some (accept (CHR '')'') (skip_whitespace c1), left)
           }
         else Some (on_codegen (\<lambda>g. gen_mov_rax_imm g 0) c, 0))"

text \<open>
  The binary operators, in the order \<^verbatim>\<open>compile_expr\<close> tests them: whether the operator
  has two characters, and the code emitted after the right operand. Every branch of the
  C loop is \<^verbatim>\<open>advance\<close> (once or twice), \<^verbatim>\<open>gen_push_rax\<close>, \<^verbatim>\<open>compile_expr\<close>, then
  this code.
\<close>

definition gen_compare :: "u8 \<Rightarrow> CodeGen \<Rightarrow> CodeGen" where
  "gen_compare cc g =
     emit_bytes (emit_bytes (emit_bytes (gen_pop_rbx g) [0x48, 0x39, 0xc3]) [0x0f, cc, 0xc0])
       [0x48, 0x0f, 0xb6, 0xc0]"

definition binop :: "char \<Rightarrow> char \<Rightarrow> (bool \<times> (CodeGen \<Rightarrow> CodeGen)) option" where
  "binop op op2 =
     (if op = CHR ''+'' \<and> op2 \<noteq> CHR ''='' then
        Some (False, \<lambda>g. emit_bytes (gen_pop_rbx g) [0x48, 0x01, 0xd8])
      else if op = CHR ''-'' \<and> \<not> isdigit op2 \<and> op2 \<noteq> CHR ''='' then
        Some (False, \<lambda>g. emit_bytes (emit_bytes (emit_bytes (gen_pop_rbx g)
                           [0x48, 0x89, 0xc1]) [0x48, 0x89, 0xd8]) [0x48, 0x29, 0xc8])
      else if op = CHR ''*'' \<and> op2 \<noteq> CHR ''='' then
        Some (False, \<lambda>g. gen_mul_rax_rbx (gen_pop_rbx g))
      else if op = CHR ''/'' \<and> op2 \<noteq> CHR ''='' then
        Some (False, \<lambda>g. gen_div_rax_rbx (gen_pop_rax (emit_bytes g [0x48, 0x89, 0xc3])))
      else if op = CHR ''>'' \<and> op2 = CHR ''='' then Some (True, gen_compare 0x9d)
      else if op = CHR ''<'' \<and> op2 = CHR ''='' then Some (True, gen_compare 0x9e)
      else if op = CHR ''='' \<and> op2 = CHR ''='' then Some (True, gen_compare 0x94)
      else if op = CHR ''!'' \<and> op2 = CHR ''='' then Some (True, gen_compare 0x95)
      else if op = CHR ''>'' \<and> op2 \<noteq> CHR ''>'' then Some (False, gen_compare 0x9f)
      else if op = CHR ''<'' \<and> op2 \<noteq> CHR ''<'' then Some (False, gen_compare 0x9c)
      else None)"

fun binops :: "nat \<Rightarrow> expr_fn \<Rightarrow> Compiler \<Rightarrow> Compiler option" where
  "binops 0 expr c = None"
| "binops (Suc k) expr c =
     (if pos c < len c then
        (case binop (peek c) (peek_n c 1) of
           None \<Rightarrow> Some c
         | Some (two, post) \<Rightarrow>
             do {
               (c1, _) \<leftarrow> expr (on_codegen gen_push_rax
                                  (if two then advance (advance c) else advance c));
               binops k expr (on_codegen post c1)
             })
      else Some c)"

fun compile_expr :: "nat \<Rightarrow> Compiler \<Rightarrow> (Compiler \<times> u64) option" where
  "compile_expr 0 c = None"
| "compile_expr (Suc n) c =
     do {
       (c1, left) \<leftarrow> compile_primary (compile_expr n) c;
       c2 \<leftarrow> binops n (compile_expr n) (skip_whitespace c1);
       Some (c2, left)
     }"

section \<open>Statement compilation\<close>

text \<open>
  \<^verbatim>\<open>compile_out\<close> and \<^verbatim>\<open>compile_emit\<close>: \<^verbatim>\<open>emit_i32(cg, len)\<close> and
  \<^verbatim>\<open>gen_mov_rdx_imm(cg, len)\<close> convert the \<^verbatim>\<open>size_t\<close>.
\<close>

definition gen_write_inline :: "CodeGen \<Rightarrow> u8 list \<Rightarrow> nat \<Rightarrow> CodeGen" where
  "gen_write_inline g text n =
     (let g1 = emit_i32 (emit_byte g 0xe9) (of_nat n);
          dpos = code_pos g1;
          g2 = emit_bytes g1 (take n text);
          g3 = gen_mov_rdi_imm (gen_mov_rax_imm g2 1) 1;
          rel = - (word_of_nat (code_pos g3 - dpos + 7) :: u32);
          g4 = emit_i32 (emit_bytes g3 [0x48, 0x8d, 0x35]) rel
      in gen_syscall (gen_mov_rdx_imm g4 (of_nat n)))"

definition compile_out :: "Compiler \<Rightarrow> Compiler" where
  "compile_out c =
     (let (text, c1) = parse_string (skip_whitespace c);
          n = strlen text
      in if n = 0 then c1 else on_codegen (\<lambda>g. gen_write_inline g text n) c1)"

definition compile_emit :: "Compiler \<Rightarrow> Compiler" where
  "compile_emit c =
     (let (bytes, c1) = parse_string (skip_whitespace c);
          n = strlen bytes
      in if n = 0 then c1 else on_codegen (\<lambda>g. gen_write_inline g bytes n) c1)"

text \<open>
  The brace matching of \<^verbatim>\<open>compile_fn_def\<close> and \<^verbatim>\<open>skip_block_decl\<close>: string literals
  (with backslash escapes) and \<^verbatim>\<open>#\<close> comments are stepped over.
\<close>

definition adv :: "string \<Rightarrow> nat \<Rightarrow> nat" where
  "adv s p = (if p < length s then p + 1 else p)"

function skip_quoted :: "string \<Rightarrow> nat \<Rightarrow> nat" where
  "skip_quoted s p =
     (if p < length s \<and> s ! p \<noteq> CHR 0x22
      then skip_quoted s (adv s (if s ! p = CHR 0x5C then adv s p else p))
      else p)"
  by pat_completeness auto
termination
  by (relation "measure (\<lambda>(s, p). length s - p)") (auto simp add: adv_def)

declare skip_quoted.simps [simp del]

lemma skip_quoted_ge: "p \<le> skip_quoted s p"
proof (induction s p rule: skip_quoted.induct)
  case (1 s p)
  show ?case
  proof (cases "p < length s \<and> s ! p \<noteq> CHR 0x22")
    case True
    have "p \<le> adv s (if s ! p = CHR 0x5C then adv s p else p)"
      by (simp add: adv_def)
    also have "\<dots> \<le> skip_quoted s (adv s (if s ! p = CHR 0x5C then adv s p else p))"
      using True by (intro "1.IH") simp_all
    finally show ?thesis
      using True by (subst skip_quoted.simps) simp
  next
    case False
    then show ?thesis
      by (subst skip_quoted.simps) auto
  qed
qed

function match_braces :: "string \<Rightarrow> nat \<Rightarrow> nat \<Rightarrow> nat" where
  "match_braces s p depth =
     (if p < length s \<and> depth > 0 then
        (if s ! p = CHR ''{'' then match_braces s (adv s p) (depth + 1)
         else if s ! p = CHR ''}'' then match_braces s (adv s p) (depth - 1)
         else if s ! p = CHR 0x22 then match_braces s (adv s (skip_quoted s (adv s p))) depth
         else if s ! p = CHR ''#'' then
           match_braces s (adv s (scan_while (\<lambda>ch. ch \<noteq> CHR 0x0A) s p)) depth
         else match_braces s (adv s p) depth)
      else p)"
  by pat_completeness auto
termination
proof (relation "measure (\<lambda>(s, p, depth). length s - p)", goal_cases)
  case 1
  then show ?case by simp
next
  case (2 s p depth)
  then show ?case by (auto simp add: adv_def)
next
  case (3 s p depth)
  then show ?case by (auto simp add: adv_def)
next
  case (4 s p depth)
  moreover have "p + 1 \<le> skip_quoted s (p + 1)"
    by (rule skip_quoted_ge)
  ultimately show ?case by (auto simp add: adv_def)
next
  case (5 s p depth)
  then have "p < scan_while (\<lambda>ch. ch \<noteq> CHR 0x0A) s p"
    by (intro scan_while_gt) simp_all
  with 5 show ?case by (auto simp add: adv_def)
next
  case (6 s p depth)
  then show ?case by (auto simp add: adv_def)
qed

declare match_braces.simps [simp del]

text \<open>\<^verbatim>\<open>sprintf(label, "..._%d", id)\<close> prints the counter in decimal.\<close>

fun dec_string :: "nat \<Rightarrow> string" where
  "dec_string n =
     (if n < 10 then [''0123456789'' ! n]
      else dec_string (n div 10) @ [''0123456789'' ! (n mod 10)])"

declare dec_string.simps [simp del]

text \<open>\<^verbatim>\<open>c->pos += k\<close> after a successful \<^verbatim>\<open>match\<close>.\<close>

definition skip :: "nat \<Rightarrow> Compiler \<Rightarrow> Compiler" where
  "skip k c = c\<lparr>pos := pos c + k\<rparr>"

text \<open>
  The parameter loop of \<^verbatim>\<open>compile_fn_def\<close>,
  \<^verbatim>\<open>while (c->pos < c->len && peek(c) != '{' && fn->param_count < 16)\<close>. A character
  that neither starts an identifier nor is white space is never consumed.
\<close>

fun fn_params :: "nat \<Rightarrow> Compiler \<Rightarrow> string list \<Rightarrow> (Compiler \<times> string list) option" where
  "fn_params 0 c ps = None"
| "fn_params (Suc k) c ps =
     (if pos c < len c \<and> peek c \<noteq> CHR ''{'' \<and> length ps < 16 then
        (if is_ident_start (peek c) then
           (let (param, c1) = parse_ident c
            in fn_params k (skip_whitespace c1) (ps @ [take (MAX_IDENT - 1) param]))
         else fn_params k (skip_whitespace c) ps)
      else Some (c, ps))"

text \<open>
  \<^verbatim>\<open>funcs[i] = f\<close> with \<open>i \<le> length fs\<close>: the array keeps what lies past the counter.
\<close>

definition set_func :: "Function list \<Rightarrow> nat \<Rightarrow> Function \<Rightarrow> Function list" where
  "set_func fs i f = (if i < length fs then fs[i := f] else fs @ [f])"

text \<open>
  \<^verbatim>\<open>compile_fn_def\<close>. The entry keeps the \<^verbatim>\<open>code_offset\<close> that the slot held (a field
  the program writes in pass 3 and never reads).
\<close>

definition compile_fn_def :: "nat \<Rightarrow> Compiler \<Rightarrow> Compiler option" where
  "compile_fn_def n c =
     (let (name, c1) = parse_ident (skip_whitespace c);
          g = codegen c1;
          idx = func_count g
      in if idx \<ge> MAX_FUNCS then Some c1
         else
           do {
             (c2, ps) \<leftarrow> fn_params n (skip_whitespace c1) [];
             let c3 = (if peek c2 = CHR ''{'' then advance c2 else c2);
                 c4 = (if peek c2 = CHR ''{''
                       then c3\<lparr>pos := match_braces (source c3) (pos c3) 1\<rparr> else c3);
                 f = \<lparr> fn_name = take (MAX_IDENT - 1) name,
                       code_offset = (if idx < length (funcs g) then code_offset (funcs g ! idx) else 0),
                       params = ps,
                       body_pos = (if peek c2 = CHR ''{'' then pos c3 else 0),
                       body_end = (if peek c2 = CHR ''{'' then pos c4 - 1 else 0) \<rparr>
             in Some (c4\<lparr>codegen := g\<lparr>funcs := set_func (funcs g) idx f, func_count := idx + 1\<rparr>\<rparr>)
           })"

fun block_loop :: "nat \<Rightarrow> stmt_fn \<Rightarrow> Compiler \<Rightarrow> Compiler option" where
  "block_loop 0 stmt c = None"
| "block_loop (Suc k) stmt c =
     (if pos c < len c then
        (let c1 = skip_whitespace c
         in if peek c1 = CHR ''}'' then Some (advance c1)
            else do { c2 \<leftarrow> stmt c1; block_loop k stmt c2 })
      else Some c)"

definition compile_block :: "nat \<Rightarrow> stmt_fn \<Rightarrow> Compiler \<Rightarrow> Compiler option" where
  "compile_block n stmt c = block_loop n stmt (accept (CHR ''{'') (skip_whitespace c))"

definition compile_when :: "nat \<Rightarrow> stmt_fn \<Rightarrow> Compiler \<Rightarrow> Compiler option" where
  "compile_when n stmt c =
     (let ident = when_id (codegen c);
          end_label = ''_when_end_'' @ dec_string ident;
          c1 = skip_whitespace (on_codegen (\<lambda>g. g\<lparr>when_id := ident + 1\<rparr>) c)
      in do {
        (c2, _) \<leftarrow> compile_expr n c1;
        let c3 = skip_whitespace (on_codegen (\<lambda>g. gen_je (gen_test_rax_rax g) end_label) c2);
        c4 \<leftarrow> (if peek c3 = CHR ''{'' then compile_block n stmt c3 else Some c3);
        Some (on_codegen (\<lambda>g. add_label g end_label) c4)
      })"

definition compile_loop :: "nat \<Rightarrow> stmt_fn \<Rightarrow> Compiler \<Rightarrow> Compiler option" where
  "compile_loop n stmt c =
     (let ident = loop_id (codegen c);
          start_label = ''_loop_start_'' @ dec_string ident;
          end_label = ''_loop_end_'' @ dec_string ident;
          c1 = (on_codegen (\<lambda>g. g\<lparr>loop_id := ident + 1\<rparr>) c)
                 \<lparr>loop_labels :=
                    (if length (loop_labels c) < 16
                     then loop_labels c @ [(take 63 start_label, take 63 end_label)]
                     else loop_labels c)\<rparr>;
          c2 = skip_whitespace (on_codegen (\<lambda>g. add_label g start_label) c1)
      in do {
        c3 \<leftarrow> (if peek c2 = CHR ''{'' then compile_block n stmt c2 else Some c2);
        let c4 = (if fate_mode c3 \<and> fate_on (fate c3)
                  then c3\<lparr>fate := fate_tick (fate c3) (tile c3)\<rparr> else c3);
            c5 = on_codegen (\<lambda>g. add_label (gen_jmp g start_label) end_label) c4
        in Some (c5\<lparr>loop_labels :=
                      (if length (loop_labels c5) > 0 then butlast (loop_labels c5)
                       else loop_labels c5)\<rparr>)
      })"

definition compile_break :: "Compiler \<Rightarrow> Compiler" where
  "compile_break c =
     (if length (loop_labels c) > 0
      then on_codegen (\<lambda>g. gen_jmp g (snd (last (loop_labels c)))) c
      else c)"

definition compile_return :: "nat \<Rightarrow> Compiler \<Rightarrow> Compiler option" where
  "compile_return n c =
     (let c1 = skip_whitespace c
      in do {
        c2 \<leftarrow> (if pos c1 < len c1 \<and> peek c1 \<noteq> CHR 0x0A \<and> peek c1 \<noteq> CHR ''}''
               then map_option fst (compile_expr n c1) else Some c1);
        Some (if length (loop_labels c2) > 0
              then on_codegen (\<lambda>g. gen_jmp g (snd (last (loop_labels c2)))) c2
              else on_codegen gen_epilogue c2)
      })"

definition compile_assign :: "nat \<Rightarrow> string \<Rightarrow> Compiler \<Rightarrow> Compiler option" where
  "compile_assign n name c =
     (let c1 = skip_whitespace c;
          (g, v) = (case find_var (codegen c1) name of
                      Some v \<Rightarrow> (codegen c1, Some v)
                    | None \<Rightarrow> add_var (codegen c1) name VAR_INT)
      in case v of
           None \<Rightarrow> Some (c1\<lparr>codegen := g\<rparr>)
         | Some var \<Rightarrow>
             do {
               (c2, _) \<leftarrow> compile_expr n (c1\<lparr>codegen := g\<rparr>);
               Some (on_codegen (\<lambda>g. gen_store_var g var) c2)
             })"

definition skip_block_decl :: "Compiler \<Rightarrow> Compiler" where
  "skip_block_decl c =
     (let c1 = c\<lparr>pos := scan_while (\<lambda>ch. ch \<noteq> CHR ''{'') (source c) (pos c)\<rparr>
      in if peek c1 = CHR ''{''
         then (let c2 = advance c1 in c2\<lparr>pos := match_braces (source c2) (pos c2) 1\<rparr>)
         else c1)"

text \<open>
  \<^verbatim>\<open>parse_unified_block\<close>. \<^verbatim>\<open>(double)parse_number(c)\<close> converts the \<^verbatim>\<open>int64_t\<close>. A
  key that is no identifier followed by a value that is no number consumes nothing, and
  the loop does not end.
\<close>

fun unified_loop :: "nat \<Rightarrow> Compiler \<Rightarrow> Compiler option" where
  "unified_loop 0 c = None"
| "unified_loop (Suc k) c =
     (if pos c < len c \<and> peek c \<noteq> CHR ''}'' then
        (let c1 = skip_whitespace c
         in if peek c1 = CHR ''}'' then Some c1
            else
              (let (key, c2) = parse_ident c1;
                   (num, c3) = parse_number (skip_whitespace (accept (CHR '':'') (skip_whitespace c2)));
                   val = real_of_int (sint num);
                   u = unified c3;
                   u1 = (if key = ''i'' \<or> key = ''information_density'' then u\<lparr>uf_i := val\<rparr>
                         else if key = ''e'' \<or> key = ''entropy_gradient'' then u\<lparr>uf_e := val\<rparr>
                         else if key = ''r'' \<or> key = ''relation_strength'' then u\<lparr>uf_r := val\<rparr>
                         else u)
               in unified_loop k (accept (CHR '','') (skip_whitespace (c3\<lparr>unified := u1\<rparr>)))))
      else Some c)"

definition parse_unified_block :: "nat \<Rightarrow> Compiler \<Rightarrow> Compiler option" where
  "parse_unified_block n c =
     (let c1 = skip_whitespace c
      in if peek c1 \<noteq> CHR ''{'' then Some (skip_line c1)
         else map_option (accept (CHR ''}'')) (unified_loop n (advance c1)))"

text \<open>
  The branches that \<^verbatim>\<open>compile_statement\<close> holds inline, each after its
  \<^verbatim>\<open>c->pos += k\<close>. \<^verbatim>\<open>(int)parse_number(c)\<close> keeps the low 32 bits.
\<close>

definition stmt_limit :: "Compiler \<Rightarrow> Compiler" where
  "stmt_limit c =
     (let (num, c1) = parse_number c;
          n = sint (ucast num :: u32)
      in c1\<lparr>fate := (fate c1)\<lparr>marginal_threshold := 1 / real_of_int n\<rparr>\<rparr>)"

definition stmt_exit :: "nat \<Rightarrow> Compiler \<Rightarrow> Compiler option" where
  "stmt_exit n c =
     (let c1 = skip_whitespace c;
          ch = peek c1
      in if isdigit ch \<or> ch = CHR ''-'' then
           (let (num, c2) = parse_number c1;
                c3 = c2\<lparr>pos := scan_while (\<lambda>x. x \<noteq> CHR '')'') (source c2) (pos c2)\<rparr>
            in Some (on_codegen (\<lambda>g. gen_exit g (ucast num)) (accept (CHR '')'') c3)))
         else
           do {
             (c2, _) \<leftarrow> compile_expr n c1;
             Some (on_codegen gen_exit_rax (accept (CHR '')'') (skip_whitespace c2)))
           })"

definition close_paren :: "Compiler \<Rightarrow> Compiler" where
  "close_paren c = accept (CHR '')'') (skip_whitespace c)"

definition gen_putchar :: "CodeGen \<Rightarrow> CodeGen" where
  "gen_putchar g =
     gen_add_rsp
       (gen_syscall
         (gen_mov_rdx_imm
           (emit_bytes
             (gen_mov_rdi_imm (gen_mov_rax_imm (emit_bytes (gen_sub_rsp g 16) [0x88, 0x04, 0x24]) 1) 1)
             [0x48, 0x8d, 0x34, 0x24])
           1))
       16"

definition stmt_putchar :: "nat \<Rightarrow> Compiler \<Rightarrow> Compiler option" where
  "stmt_putchar n c =
     do {
       (c1, _) \<leftarrow> compile_expr n c;
       Some (on_codegen gen_putchar (close_paren c1))
     }"

text \<open>
  The argument loop of a call statement, \<^verbatim>\<open>while (peek(c) != ')' && c->pos < c->len)\<close>:
  no bound on \<^verbatim>\<open>argc\<close>, and an argument that consumes nothing repeats forever.
\<close>

fun stmt_args :: "nat \<Rightarrow> expr_fn \<Rightarrow> Compiler \<Rightarrow> nat \<Rightarrow> (Compiler \<times> nat) option" where
  "stmt_args 0 expr c argc = None"
| "stmt_args (Suc k) expr c argc =
     (if peek c \<noteq> CHR '')'' \<and> pos c < len c then
        do {
          (c1, _) \<leftarrow> expr c;
          stmt_args k expr
            (skip_whitespace (accept (CHR '','') (skip_whitespace (on_codegen gen_push_rax c1))))
            (argc + 1)
        }
      else Some (c, argc))"

definition stmt_call :: "nat \<Rightarrow> string \<Rightarrow> Compiler \<Rightarrow> Compiler option" where
  "stmt_call n name c =
     do {
       (c1, argc) \<leftarrow> stmt_args n (compile_expr n) (skip_whitespace (advance c)) 0;
       Some (on_codegen (\<lambda>g. gen_call_cleanup g name argc) (accept (CHR '')'') c1))
     }"

definition stmt_ident :: "nat \<Rightarrow> Compiler \<Rightarrow> Compiler option" where
  "stmt_ident n c =
     (let (name, c1) = parse_ident c;
          c2 = skip_whitespace c1
      in if peek c2 = CHR ''='' \<and> peek_n c2 1 \<noteq> CHR ''='' then compile_assign n name (advance c2)
         else if peek c2 = CHR ''('' then stmt_call n name c2
         else Some (skip_line c2))"

definition block_keywords :: "string list" where
  "block_keywords =
     [''pool '', ''fate {'', ''task {'', ''gpu {'', ''perf {'', ''reg {'', ''sys {'',
      ''compiler {'', ''collapse {'', ''lib {'', ''env {'', ''rule '', ''intent '',
      ''platform {'', ''tile {'', ''codegen {'', ''graphics {'', ''gui {'', ''style {'',
      ''layout {'', ''event {'', ''db {'', ''core {'', ''kernel {'', ''linux {'', ''macos {'',
      ''windows {'', ''driver {'', ''observe {'', ''field {'', ''use '']"

text \<open>
  \<^verbatim>\<open>compile_statement\<close>: the first keyword that matches decides. \<open>stmt\<close> is the
  recursive call, made by the blocks of \<^verbatim>\<open>when\<close>, \<^verbatim>\<open>loop\<close> and \<^verbatim>\<open>otherwise\<close>.
  The statement forms of \<^verbatim>\<open>poke\<close> and \<^verbatim>\<open>peek\<close> emit what the expression forms emit.
\<close>

definition statement :: "nat \<Rightarrow> stmt_fn \<Rightarrow> Compiler \<Rightarrow> Compiler option" where
  "statement n stmt c0 =
     (let c = skip_whitespace c0
      in if pos c \<ge> len c then Some c
         else if peek c = CHR ''#'' then Some (skip_line c)
         else if match c ''out '' then Some (compile_out (skip 4 c))
         else if match c ''emit '' then Some (compile_emit (skip 5 c))
         else if match c ''fn '' then compile_fn_def n (skip 3 c)
         else if match c ''when '' then compile_when n stmt (skip 5 c)
         else if match c ''loop'' then compile_loop n stmt (skip_whitespace (skip 4 c))
         else if match c ''break'' then Some (compile_break (skip 5 c))
         else if match c ''return'' then compile_return n (skip 6 c)
         else if match c ''-> '' then compile_return n (skip 3 c)
         else if match c ''keep'' then Some (on_codegen gen_event_loop (skip 4 c))
         else if match c ''fate on''
           then Some ((skip 7 c)\<lparr>fate_mode := True, fate := (fate c)\<lparr>fate_on := True\<rparr>\<rparr>)
         else if match c ''fate off''
           then Some ((skip 8 c)\<lparr>fate_mode := False, fate := (fate c)\<lparr>fate_on := False\<rparr>\<rparr>)
         else if match c ''limit '' then Some (stmt_limit (skip 6 c))
         else if match c ''syscall.exit('' then stmt_exit n (skip 13 c)
         else if match c ''syscall.write(''
           then map_option close_paren (syscall3 (compile_expr n) 1 (skip 14 c))
         else if match c ''syscall.read(''
           then map_option close_paren (syscall3 (compile_expr n) 0 (skip 13 c))
         else if match c ''syscall.open(''
           then map_option close_paren (syscall3 (compile_expr n) 2 (skip 13 c))
         else if match c ''syscall.close(''
           then map_option close_paren (syscall_close (compile_expr n) (skip 14 c))
         else if match c ''syscall.mmap(''
           then map_option close_paren (syscall_mmap (compile_expr n) (skip 13 c))
         else if match c ''poke('' then map_option fst (expr_poke (compile_expr n) (skip 5 c))
         else if match c ''peek('' then map_option fst (expr_peek (compile_expr n) (skip 5 c))
         else if match c ''getchar()'' then Some (on_codegen gen_getchar (skip 9 c))
         else if match c ''putchar('' then stmt_putchar n (skip 8 c)
         else if match c ''byte('' then stmt_putchar n (skip 5 c)
         else if match c ''unified '' then parse_unified_block n (skip 8 c)
         else if match c ''unified{'' then parse_unified_block n (skip 7 c)
         else if match c ''platform.probe'' then Some (skip 14 c)
         else if match c ''bridge.read'' then Some (skip 11 c)
         else if match c ''compat.probe'' then Some (skip 12 c)
         else if list_ex (match c) block_keywords then Some (skip_block_decl c)
         else if match c ''otherwise'' then
           (let c1 = skip_whitespace (skip 9 c)
            in if peek c1 = CHR ''{'' then compile_block n stmt c1 else Some c1)
         else if is_ident_start (peek c) then stmt_ident n c
         else Some (skip_line c))"

fun compile_statement :: "nat \<Rightarrow> Compiler \<Rightarrow> Compiler option" where
  "compile_statement 0 c = None"
| "compile_statement (Suc n) c = statement n (compile_statement n) c"

section \<open>The three passes\<close>

text \<open>
  The parameter loop of \<^verbatim>\<open>compile_function_body\<close> writes \<^verbatim>\<open>vars[var_count++]\<close>
  without a bounds check: past \<^verbatim>\<open>MAX_VARS\<close> entries the store lands outside the array
  (undefined behaviour, \<open>None\<close>). Parameter \<open>i\<close> of \<open>param_count\<close> gets the frame offset
  \<open>16 + (param_count - 1 - i) * 8\<close>.
\<close>

definition param_var :: "nat \<Rightarrow> nat \<Rightarrow> string \<Rightarrow> Variable" where
  "param_var param_count i name =
     \<lparr> var_name = take (MAX_IDENT - 1) name, var_type = VAR_INT, int_val = 0,
       stack_offset = 16 + (int param_count - 1 - int i) * 8, is_param = True,
       is_global = False, global_addr = 0 \<rparr>"

definition bind_params :: "CodeGen \<Rightarrow> string list \<Rightarrow> CodeGen option" where
  "bind_params g ps =
     (if length (vars g) + length ps > MAX_VARS then None
      else Some (g\<lparr>vars := vars g @ map (\<lambda>i. param_var (length ps) i (ps ! i)) [0..<length ps]\<rparr>))"

fun body_loop :: "nat \<Rightarrow> stmt_fn \<Rightarrow> nat \<Rightarrow> Compiler \<Rightarrow> Compiler option" where
  "body_loop 0 stmt bend c = None"
| "body_loop (Suc k) stmt bend c =
     (if pos c < bend then do { c1 \<leftarrow> stmt c; body_loop k stmt bend c1 } else Some c)"

definition compile_function_body :: "nat \<Rightarrow> Function \<Rightarrow> Compiler \<Rightarrow> Compiler option" where
  "compile_function_body n f c =
     (let g = codegen c;
          saved_var_count = length (vars g);
          saved_stack_size = stack_size g;
          saved_in_function = in_function g;
          saved_pos = pos c
      in do {
        g1 \<leftarrow> bind_params (g\<lparr>in_function := True\<rparr>) (params f);
        c1 \<leftarrow> body_loop n (compile_statement n) (body_end f) (c\<lparr>codegen := g1, pos := body_pos f\<rparr>);
        Some (c1\<lparr>pos := saved_pos,
                 codegen := (codegen c1)\<lparr>vars := take saved_var_count (vars (codegen c1)),
                                          stack_size := saved_stack_size,
                                          in_function := saved_in_function\<rparr>\<rparr>)
      })"

text \<open>Pass 1: \<^verbatim>\<open>fn\<close> at the start of a line registers a function; every other line is skipped.\<close>

fun pass1 :: "nat \<Rightarrow> stmt_fn \<Rightarrow> Compiler \<Rightarrow> Compiler option" where
  "pass1 0 fn_def c = None"
| "pass1 (Suc k) fn_def c =
     (if pos c < len c then
        (let c1 = skip_whitespace c
         in if match c1 ''fn '' then do { c2 \<leftarrow> fn_def (skip 3 c1); pass1 k fn_def c2 }
            else pass1 k fn_def (skip_line c1))
      else Some c)"

text \<open>Pass 2: \<^verbatim>\<open>while (c->pos < c->len) compile_statement(c);\<close>\<close>

fun pass2 :: "nat \<Rightarrow> stmt_fn \<Rightarrow> Compiler \<Rightarrow> Compiler option" where
  "pass2 0 stmt c = None"
| "pass2 (Suc k) stmt c =
     (if pos c < len c then do { c1 \<leftarrow> stmt c; pass2 k stmt c1 } else Some c)"

text \<open>
  Pass 3: \<^verbatim>\<open>for (i = 0; i < func_count; i++)\<close>, the counter read again at every turn (a
  \<^verbatim>\<open>fn\<close> inside a body registers a function while the loop runs).
\<close>

definition gen_function_entry :: "nat \<Rightarrow> Function \<Rightarrow> CodeGen \<Rightarrow> CodeGen" where
  "gen_function_entry i f g =
     gen_sub_rsp
       (gen_prologue
         (add_label (g\<lparr>funcs := (funcs g)[i := f\<lparr>code_offset := code_pos g\<rparr>]\<rparr>) (fn_name f)))
       256"

definition gen_function_exit :: "CodeGen \<Rightarrow> CodeGen" where
  "gen_function_exit g = emit_byte (gen_pop_rbp (gen_add_rsp g 256)) 0xc3"

fun pass3 :: "nat \<Rightarrow> (Function \<Rightarrow> stmt_fn) \<Rightarrow> nat \<Rightarrow> Compiler \<Rightarrow> Compiler option" where
  "pass3 0 body i c = None"
| "pass3 (Suc k) body i c =
     (if i < func_count (codegen c) then
        (if i < length (funcs (codegen c)) then
           (let f = funcs (codegen c) ! i
            in if body_pos f > 0 \<and> body_end f > body_pos f then
                 do {
                   c1 \<leftarrow> body f (on_codegen (gen_function_entry i f) c);
                   pass3 k body (i + 1) (on_codegen gen_function_exit c1)
                 }
               else pass3 k body (i + 1) c)
         else None)
      else Some c)"

definition default_pools :: TileManager where
  "default_pools =
     tile_add_pool (tile_add_pool (tile_add_pool (tile_add_pool tile_init
       0x10000 0x10000 ''blackhole'') 0x20000 0x10000 ''meshbrain'')
       0x30000 0x10000 ''multinova'') 0x40000 0x10000 ''baseforce''"

definition compile :: "nat \<Rightarrow> Compiler \<Rightarrow> Compiler option" where
  "compile n c =
     (let c1 = (on_codegen (\<lambda>g. gen_sub_rsp (gen_prologue g) 512) c)
                 \<lparr>unified := unified_init, tile := default_pools, fate := fate_init\<rparr>;
          saved_pos = pos c1
      in do {
        c2 \<leftarrow> pass1 n (compile_fn_def n) c1;
        let saved_count = func_count (codegen c2);
        c3 \<leftarrow> pass2 n (compile_statement n)
                (on_codegen (\<lambda>g. g\<lparr>func_count := 0\<rparr>) (c2\<lparr>pos := saved_pos\<rparr>));
        c4 \<leftarrow> pass3 n (compile_function_body n) 0
                (on_codegen (\<lambda>g. gen_exit (g\<lparr>func_count := saved_count\<rparr>) 0) c3);
        g \<leftarrow> resolve_fixups (codegen c4);
        Some (c4\<lparr>codegen := g\<rparr>)
      })"

section \<open>Main\<close>

text \<open>
  The environment of a run: which files can be read (with their content), which can be
  opened for writing, and whether \<^verbatim>\<open>malloc\<close> of the compiler succeeds. What a run leaves
  behind: the exit code, the lines on \<^verbatim>\<open>stderr\<close>, the reports on \<^verbatim>\<open>stdout\<close> (as
  values, not yet formatted), and the file written with its mode (\<open>None\<close>: no file).
\<close>

record environment =
  read_file :: "string \<Rightarrow> string option"
  can_write :: "string \<Rightarrow> bool"
  malloc_ok :: bool

datatype report =
    Banner
  | Usage string
  | Generated_raw string nat
  | Generated string
  | Code_bytes nat
  | Counts nat nat
  | Unified_values real real real
  | Tile_bytes nat nat
  | Fate_state bool
  | Platform_values int u64

record outcome =
  exit_code :: int
  stderr :: "string list"
  stdout :: "report list"
  written :: "(string \<times> u8 list \<times> nat option) option"

text \<open>The option loop \<^verbatim>\<open>for (i = 2; i < argc; i++)\<close>: the output name and the raw flag.\<close>

fun parse_args :: "string list \<Rightarrow> string \<times> bool \<Rightarrow> string \<times> bool" where
  "parse_args [] st = st"
| "parse_args [a] st = (if a = ''--raw'' then (fst st, True) else st)"
| "parse_args (a # b # rest) st =
     (if a = ''-o'' then parse_args rest (b, snd st)
      else if a = ''--raw'' then parse_args (b # rest) (fst st, True)
      else parse_args (b # rest) st)"

definition final_reports :: "Compiler \<Rightarrow> report list" where
  "final_reports c =
     [Counts (length (vars (codegen c))) (func_count (codegen c)),
      Unified_values (uf_i (unified c)) (uf_e (unified c)) (uf_r (unified c)),
      Tile_bytes (tile_total_used (tile c)) (length (pools (tile c))),
      Fate_state (fate_on (fate c)),
      Platform_values (platform_id (platform_info c)) (syscall_base (platform_info c))]"

definition main :: "nat \<Rightarrow> environment \<Rightarrow> string list \<Rightarrow> outcome option" where
  "main n env argv =
     (if length argv < 2 then
        Some \<lparr> exit_code = 1, stderr = [], stdout = [Banner, Usage (hd (argv @ [[]]))], written = None \<rparr>
      else
        (let input = argv ! 1;
             (output, raw) = parse_args (drop 2 argv) (''a.out'', False)
         in case read_file env input of
              None \<Rightarrow>
                Some \<lparr> exit_code = 1, stderr = [''Cannot open: '' @ input], stdout = [Banner],
                       written = None \<rparr>
            | Some src \<Rightarrow>
                if \<not> malloc_ok env then
                  Some \<lparr> exit_code = 1, stderr = [''Out of memory''], stdout = [Banner],
                         written = None \<rparr>
                else
                  do {
                    c \<leftarrow> compile n (compiler_init src);
                    Some
                      (if raw then
                         \<lparr> exit_code = 0, stderr = [],
                           stdout = [Banner, Generated_raw output (code_pos (codegen c))] @ final_reports c,
                           written = map_option (\<lambda>bytes. (output, bytes, None))
                                       (write_raw (codegen c) (can_write env output)) \<rparr>
                       else
                         \<lparr> exit_code = 0, stderr = [],
                           stdout = [Banner, Generated output, Code_bytes (code_pos (codegen c))]
                                      @ final_reports c,
                           written = map_option (\<lambda>(bytes, mode). (output, bytes, Some mode))
                                       (write_elf (codegen c) (can_write env output)) \<rparr>)
                  }))"

section \<open>Sequences of calls on the code generator\<close>

text \<open>
  Everything the compiler does to the code buffer before \<^verbatim>\<open>resolve_fixups\<close> goes through
  the primitive emitters, \<^verbatim>\<open>add_label\<close> and \<^verbatim>\<open>add_fixup\<close>. A \<open>cg_call\<close> names one
  such call, \<open>do_calls\<close> runs a sequence of them in order.
\<close>

datatype cg_call =
    Emit_byte u8
  | Emit_bytes "u8 list"
  | Emit_u32 u32
  | Emit_i32 u32
  | Emit_u64 u64
  | Add_label string
  | Add_fixup string

fun do_call :: "CodeGen \<Rightarrow> cg_call \<Rightarrow> CodeGen" where
  "do_call cg (Emit_byte b) = emit_byte cg b"
| "do_call cg (Emit_bytes bs) = emit_bytes cg bs"
| "do_call cg (Emit_u32 v) = emit_u32 cg v"
| "do_call cg (Emit_i32 v) = emit_i32 cg v"
| "do_call cg (Emit_u64 v) = emit_u64 cg v"
| "do_call cg (Add_label name) = add_label cg name"
| "do_call cg (Add_fixup label) = add_fixup cg label"

definition do_calls :: "CodeGen \<Rightarrow> cg_call list \<Rightarrow> CodeGen" where
  "do_calls cg calls = foldl do_call cg calls"

section \<open>Reading the emitted bytes back\<close>

text \<open>
  \<open>de_le\<close> reads a byte list as a little-endian integer. \<open>enc_i32\<close> is the four
  bytes \<^verbatim>\<open>resolve_fixups\<close> stores for an offset, \<open>upd4\<close> the four stores into the
  buffer. \<open>fixups_inv\<close> is what the emitters keep true of the label and fixup tables:
  the cursor is within the capacity, no label lies past the cursor, and a fixup that had
  four bytes of room when it was recorded is followed by four zero bytes and lies four
  bytes or more before the next fixup.
\<close>

definition de_le :: "u8 list \<Rightarrow> 'a::len word" where
  "de_le bs = foldr (\<lambda>b acc. ucast b OR push_bit 8 acc) bs 0"

definition enc_i32 :: "u32 \<Rightarrow> u8 list" where
  "enc_i32 w = [ucast (w AND 0xff), ucast (signed_drop_bit 8 w AND 0xff),
                ucast (signed_drop_bit 16 w AND 0xff), ucast (signed_drop_bit 24 w AND 0xff)]"

definition fixups_inv :: "CodeGen \<Rightarrow> bool" where
  "fixups_inv cg \<longleftrightarrow>
     code_pos cg \<le> code_cap cg \<and>
     (\<forall>n \<in> set (labels cg). snd n \<le> code_pos cg) \<and>
     (\<forall>f \<in> set (fixups cg). fst f + 4 \<le> code_cap cg \<longrightarrow>
        fst f + 4 \<le> code_pos cg \<and> take 4 (drop (fst f) (code cg)) = [0, 0, 0, 0]) \<and>
     sorted_wrt (\<lambda>f g. fst f + 4 \<le> code_cap cg \<longrightarrow> fst f + 4 \<le> fst g) (fixups cg)"

definition upd4 :: "u8 list \<Rightarrow> nat \<Rightarrow> u8 list \<Rightarrow> u8 list" where
  "upd4 xs p bs = xs[p := bs ! 0, p + 1 := bs ! 1, p + 2 := bs ! 2, p + 3 := bs ! 3]"

section \<open>The write cursor and the capacity\<close>

lemma emit_byte_cap [simp]: "code_cap (emit_byte cg b) = code_cap cg"
  by (simp add: emit_byte_def)

lemma emit_byte_le: "code_pos cg \<le> code_cap cg \<Longrightarrow> code_pos (emit_byte cg b) \<le> code_cap cg"
  by (simp add: emit_byte_def)

lemma emit_byte_full: "code_cap cg \<le> code_pos cg \<Longrightarrow> emit_byte cg b = cg"
  by (simp add: emit_byte_def)

lemma emit_bytes_cap [simp]: "code_cap (emit_bytes cg bs) = code_cap cg"
  unfolding emit_bytes_def by (induction bs arbitrary: cg) simp_all

lemma emit_bytes_le: "code_pos cg \<le> code_cap cg \<Longrightarrow> code_pos (emit_bytes cg bs) \<le> code_cap cg"
  unfolding emit_bytes_def
proof (induction bs arbitrary: cg)
  case Nil
  then show ?case by simp
next
  case (Cons b bs)
  from Cons.prems have "code_pos (emit_byte cg b) \<le> code_cap (emit_byte cg b)"
    by (simp add: emit_byte_le)
  from Cons.IH [OF this] show ?case by simp
qed

lemma emit_bytes_full: "code_cap cg \<le> code_pos cg \<Longrightarrow> emit_bytes cg bs = cg"
  unfolding emit_bytes_def by (induction bs) (simp_all add: emit_byte_full)

lemma emit_u32_cap [simp]: "code_cap (emit_u32 cg v) = code_cap cg"
  by (simp add: emit_u32_def)

lemma emit_u32_le: "code_pos cg \<le> code_cap cg \<Longrightarrow> code_pos (emit_u32 cg v) \<le> code_cap cg"
  by (simp add: emit_u32_def emit_byte_def)

lemma emit_u32_full: "code_cap cg \<le> code_pos cg \<Longrightarrow> emit_u32 cg v = cg"
  by (simp add: emit_u32_def emit_byte_full)

lemma emit_u64_cap [simp]: "code_cap (emit_u64 cg v) = code_cap cg"
  by (simp add: emit_u64_def)

lemma emit_u64_le: "code_pos cg \<le> code_cap cg \<Longrightarrow> code_pos (emit_u64 cg v) \<le> code_cap cg"
  unfolding emit_u64_def using emit_u32_le [of "emit_u32 cg _"] emit_u32_le [of cg] by simp

lemma emit_u64_full: "code_cap cg \<le> code_pos cg \<Longrightarrow> emit_u64 cg v = cg"
  by (simp add: emit_u64_def emit_u32_full)

lemma add_label_code [simp]: "code (add_label cg name) = code cg" "code_cap (add_label cg name) = code_cap cg"
  by (simp_all add: add_label_def)

lemma add_fixup_cap [simp]: "code_cap (add_fixup cg l) = code_cap cg"
  by (simp add: add_fixup_def)

lemma add_fixup_le: "code_pos cg \<le> code_cap cg \<Longrightarrow> code_pos (add_fixup cg l) \<le> code_cap cg"
  unfolding add_fixup_def
  using emit_u32_le [of "cg\<lparr>fixups := fixups cg @ [(code_pos cg, take 63 l)]\<rparr>" 0] emit_u32_le [of cg 0]
  by simp

lemma add_fixup_full: "code_cap cg \<le> code_pos cg \<Longrightarrow> code (add_fixup cg l) = code cg"
  by (simp add: add_fixup_def emit_u32_full)

lemma do_call_cap [simp]: "code_cap (do_call cg c) = code_cap cg"
  by (cases c) (simp_all add: emit_i32_def)

lemma do_call_le: "code_pos cg \<le> code_cap cg \<Longrightarrow> code_pos (do_call cg c) \<le> code_cap cg"
  by (cases c) (simp_all add: emit_i32_def emit_byte_le emit_bytes_le emit_u32_le emit_u64_le add_fixup_le)

lemma do_call_full: "code_cap cg \<le> code_pos cg \<Longrightarrow> code (do_call cg c) = code cg"
  by (cases c)
     (simp_all add: emit_i32_def emit_byte_full emit_bytes_full emit_u32_full emit_u64_full add_fixup_full)

lemma do_calls_cap [simp]: "code_cap (do_calls cg cs) = code_cap cg"
  unfolding do_calls_def by (induction cs arbitrary: cg) simp_all

lemma do_calls_le: "code_pos cg \<le> code_cap cg \<Longrightarrow> code_pos (do_calls cg cs) \<le> code_cap cg"
  unfolding do_calls_def
proof (induction cs arbitrary: cg)
  case Nil
  then show ?case by simp
next
  case (Cons c cs)
  have "code_pos (do_call cg c) \<le> code_cap (do_call cg c)"
    using Cons.prems by (simp add: do_call_le)
  from Cons.IH [OF this] show ?case by simp
qed

lemma do_calls_full: "code_cap cg \<le> code_pos cg \<Longrightarrow> code (do_calls cg cs) = code cg"
  unfolding do_calls_def
proof (induction cs arbitrary: cg)
  case Nil
  then show ?case by simp
next
  case (Cons c cs)
  have "code_cap (do_call cg c) \<le> code_pos (do_call cg c)"
    using Cons.prems by (simp add: do_call_full)
  from Cons.IH [OF this] show ?case using Cons.prems by (simp add: do_call_full)
qed

text \<open>
  Claim C8. \<^verbatim>\<open>emit_byte\<close> is a no-op when the cursor equals the capacity; after any
  sequence of emitter calls, from the initial state or from any state whose cursor is
  within the capacity, the cursor is within the capacity; and once the buffer is full,
  whatever is emitted is dropped: the buffer (and with it the cursor) stays as it was.
\<close>

theorem code_pos_never_exceeds_cap:
  "(code_pos cg = code_cap cg \<longrightarrow> emit_byte cg b = cg) \<and>
   (code_pos cg \<le> code_cap cg \<longrightarrow>
      code_pos (do_calls cg calls) \<le> code_cap (do_calls cg calls)) \<and>
   code_pos (do_calls codegen_init calls) \<le> code_cap (do_calls codegen_init calls) \<and>
   (code_pos cg = code_cap cg \<longrightarrow>
      code (do_calls cg calls) = code cg \<and> code_pos (do_calls cg calls) = code_pos cg)"
proof -
  have "code_pos codegen_init \<le> code_cap codegen_init"
    by (simp add: codegen_init_def)
  then show ?thesis
    using do_calls_le [of codegen_init calls]
    by (simp add: emit_byte_full do_calls_le do_calls_full)
qed

text \<open>
  The theorem at a full two-byte buffer: a byte, a 32-bit word and a fixup are all dropped.
\<close>

theorem code_pos_never_exceeds_cap_witness:
  "code_pos (codegen_init\<lparr>code := [1, 2], code_cap := 2\<rparr>) = code_cap (codegen_init\<lparr>code := [1, 2], code_cap := 2\<rparr>) \<and>
   emit_byte (codegen_init\<lparr>code := [1, 2], code_cap := 2\<rparr>) 7 = codegen_init\<lparr>code := [1, 2], code_cap := 2\<rparr> \<and>
   code (do_calls (codegen_init\<lparr>code := [1, 2], code_cap := 2\<rparr>)
           [Emit_byte 7, Emit_u32 9, Add_fixup ''f'']) = [1, 2]"
  using code_pos_never_exceeds_cap
    [of "codegen_init\<lparr>code := [1, 2], code_cap := 2\<rparr>" 7 "[Emit_byte 7, Emit_u32 9, Add_fixup ''f'']"]
  by simp

section \<open>Fixup resolution\<close>

lemma ff_mask: "(0xff :: 'a::len word) = mask 8"
  by (simp add: mask_eq_exp_minus_1)

lemma de_le_enc_i32: "de_le (enc_i32 w) = w"
proof (rule bit_word_eqI)
  fix n :: nat
  assume n: "n < LENGTH(32)"
  consider "n < 8" | "8 \<le> n" "n < 16" | "16 \<le> n" "n < 24" | "24 \<le> n" "n < 32"
    using n by fastforce
  then show "bit (de_le (enc_i32 w) :: u32) n = bit w n"
    by cases (auto simp add: de_le_def enc_i32_def ff_mask bit_simps)
qed

lemma foldl_emit_byte:
  "foldl emit_byte cg bs = cg\<lparr>code := code cg @ take (code_cap cg - code_pos cg) bs\<rparr>"
proof (induction bs arbitrary: cg)
  case Nil
  then show ?case by simp
next
  case (Cons b bs)
  have "foldl emit_byte cg (b # bs) =
        (emit_byte cg b)\<lparr>code := code (emit_byte cg b) @
           take (code_cap (emit_byte cg b) - code_pos (emit_byte cg b)) bs\<rparr>"
    using Cons.IH [of "emit_byte cg b"] by simp
  also have "\<dots> = cg\<lparr>code := code cg @ take (code_cap cg - code_pos cg) (b # bs)\<rparr>"
  proof (cases "code_pos cg < code_cap cg")
    case True
    then have "code_cap cg - code_pos cg = Suc (code_cap cg - Suc (code_pos cg))"
      by simp
    then show ?thesis
      using True by (simp add: emit_byte_def)
  next
    case False
    then show ?thesis
      by (simp add: emit_byte_def)
  qed
  finally show ?case .
qed

lemma emit_bytes_eq:
  "emit_bytes cg bs = cg\<lparr>code := code cg @ take (code_cap cg - code_pos cg) bs\<rparr>"
  by (simp add: emit_bytes_def foldl_emit_byte)

lemma emit_byte_eq: "emit_byte cg b = emit_bytes cg [b]"
  by (simp add: emit_bytes_def)

lemma emit_u32_eq:
  "emit_u32 cg v = emit_bytes cg [ucast (v AND 0xff), ucast (drop_bit 8 v AND 0xff),
     ucast (drop_bit 16 v AND 0xff), ucast (drop_bit 24 v AND 0xff)]"
  by (simp add: emit_u32_def emit_bytes_def)

lemma take4_drop_nth:
  "q + 4 \<le> length xs \<Longrightarrow> take 4 (drop q xs) = [xs ! q, xs ! (q + 1), xs ! (q + 2), xs ! (q + 3)]"
  by (rule nth_equalityI) (auto simp add: nth_Cons' less_Suc_eq numeral_eq_Suc split: if_splits)

lemma fixups_inv_init: "fixups_inv codegen_init"
  by (simp add: fixups_inv_def codegen_init_def)

lemma fixups_inv_emit_bytes: "fixups_inv cg \<Longrightarrow> fixups_inv (emit_bytes cg bs)"
  unfolding fixups_inv_def emit_bytes_eq by (auto simp add: min_def)

lemma fixups_inv_add_label: "fixups_inv cg \<Longrightarrow> fixups_inv (add_label cg name)"
  unfolding fixups_inv_def add_label_def by auto

lemma fixups_inv_add_fixup:
  assumes "fixups_inv cg"
  shows "fixups_inv (add_fixup cg l)"
proof (cases "length (fixups cg) < MAX_LABELS")
  case False
  then show ?thesis
    using fixups_inv_emit_bytes [OF assms] by (simp add: add_fixup_def emit_u32_eq)
next
  case True
  let ?p = "code_pos cg"
  have z: "(0::u32) AND 0xff = 0" "drop_bit 8 (0::u32) = 0" "drop_bit 16 (0::u32) = 0"
    "drop_bit 24 (0::u32) = 0" "(ucast (0::u32) :: u8) = 0"
    by simp_all
  have eq: "add_fixup cg l =
      cg\<lparr>fixups := fixups cg @ [(?p, take 63 l)],
         code := code cg @ take (code_cap cg - ?p) [0, 0, 0, 0]\<rparr>"
    using True by (simp add: add_fixup_def emit_u32_eq emit_bytes_eq z)
  have new: "?p + 4 \<le> code_cap cg \<Longrightarrow> take (code_cap cg - ?p) [0, 0, 0, 0 :: u8] = [0, 0, 0, 0]"
    by simp
  show ?thesis
    using assms unfolding eq fixups_inv_def
    by (auto simp add: sorted_wrt_append min_def new)
qed

lemma fixups_inv_do_call: "fixups_inv cg \<Longrightarrow> fixups_inv (do_call cg c)"
  by (cases c)
     (simp_all add: emit_byte_eq emit_i32_def emit_u32_eq emit_u64_def fixups_inv_emit_bytes
        fixups_inv_add_label fixups_inv_add_fixup)

lemma fixups_inv_do_calls: "fixups_inv cg \<Longrightarrow> fixups_inv (do_calls cg cs)"
  unfolding do_calls_def by (induction cs arbitrary: cg) (simp_all add: fixups_inv_do_call)

lemma length_upd4 [simp]: "length (upd4 xs p bs) = length xs"
  by (simp add: upd4_def)

lemma upd4_same:
  assumes "p + 4 \<le> length xs"
  shows "take 4 (drop p (upd4 xs p (enc_i32 w))) = enc_i32 w"
  using assms by (simp add: upd4_def enc_i32_def take4_drop_nth nth_list_update)

lemma upd4_other:
  assumes "q + 4 \<le> p \<or> p + 4 \<le> q"
  shows "take 4 (drop q (upd4 xs p bs)) = take 4 (drop q xs)"
  using assms unfolding upd4_def
proof
  assume "q + 4 \<le> p"
  then show "take 4 (drop q (xs[p := bs ! 0, p + 1 := bs ! 1, p + 2 := bs ! 2, p + 3 := bs ! 3])) =
      take 4 (drop q xs)"
    by (simp add: drop_update_swap take_update_cancel)
next
  assume "p + 4 \<le> q"
  then show "take 4 (drop q (xs[p := bs ! 0, p + 1 := bs ! 1, p + 2 := bs ! 2, p + 3 := bs ! 3])) =
      take 4 (drop q xs)"
    by (simp add: drop_update_cancel)
qed

lemma patch_fixup_code:
  assumes "fst f + 4 \<le> code_pos cg"
  shows "patch_fixup cg f =
     Some (case find_label (labels cg) (snd f) of
             None \<Rightarrow> cg
           | Some t \<Rightarrow> cg\<lparr>code := upd4 (code cg) (fst f) (enc_i32 (fixup_offset t (fst f)))\<rparr>)"
  using assms
  by (simp add: patch_fixup_def poke_code_def enc_i32_def upd4_def Let_def split: option.splits)

lemma patch_fixup_in:
  assumes "fst f + 4 \<le> code_pos cg"
  shows "\<exists>cg'. patch_fixup cg f = Some cg' \<and> labels cg' = labels cg \<and> code_pos cg' = code_pos cg \<and>
     take 4 (drop (fst f) (code cg')) =
       (case find_label (labels cg) (snd f) of
          None \<Rightarrow> take 4 (drop (fst f) (code cg))
        | Some t \<Rightarrow> enc_i32 (fixup_offset t (fst f))) \<and>
     (\<forall>q. q + 4 \<le> fst f \<or> fst f + 4 \<le> q \<longrightarrow>
        take 4 (drop q (code cg')) = take 4 (drop q (code cg)))"
proof (cases "find_label (labels cg) (snd f)")
  case None
  then show ?thesis
    unfolding patch_fixup_code [OF assms] by simp
next
  case (Some t)
  then show ?thesis
    unfolding patch_fixup_code [OF assms]
    using upd4_same [OF assms, of "fixup_offset t (fst f)"]
      upd4_other [of _ "fst f" "code cg" "enc_i32 (fixup_offset t (fst f))"]
    by simp
qed

lemma resolve_loop_in:
  assumes "\<forall>f \<in> set fs. fst f + 4 \<le> code_pos cg"
      and "sorted_wrt (\<lambda>f g. fst f + 4 \<le> fst g) fs"
  shows "\<exists>cg'. resolve_loop fs cg = Some cg' \<and> labels cg' = labels cg \<and> code_pos cg' = code_pos cg \<and>
     (\<forall>f \<in> set fs. take 4 (drop (fst f) (code cg')) =
        (case find_label (labels cg) (snd f) of
           None \<Rightarrow> take 4 (drop (fst f) (code cg))
         | Some t \<Rightarrow> enc_i32 (fixup_offset t (fst f)))) \<and>
     (\<forall>q. (\<forall>f \<in> set fs. q + 4 \<le> fst f \<or> fst f + 4 \<le> q) \<longrightarrow>
        take 4 (drop q (code cg')) = take 4 (drop q (code cg)))"
  using assms
proof (induction fs arbitrary: cg)
  case Nil
  then show ?case by simp
next
  case (Cons f fs)
  from Cons.prems have f_in: "fst f + 4 \<le> code_pos cg"
    by simp
  from patch_fixup_in [OF f_in] obtain cg1 where
    p1: "patch_fixup cg f = Some cg1" and l1: "labels cg1 = labels cg"
    and n1: "code_pos cg1 = code_pos cg"
    and v1: "take 4 (drop (fst f) (code cg1)) =
       (case find_label (labels cg) (snd f) of
          None \<Rightarrow> take 4 (drop (fst f) (code cg))
        | Some t \<Rightarrow> enc_i32 (fixup_offset t (fst f)))"
    and fr1: "\<And>q. q + 4 \<le> fst f \<or> fst f + 4 \<le> q \<Longrightarrow>
        take 4 (drop q (code cg1)) = take 4 (drop q (code cg))"
    by blast
  have pre: "\<forall>g \<in> set fs. fst g + 4 \<le> code_pos cg1"
    using Cons.prems n1 by simp
  have srt: "sorted_wrt (\<lambda>f g. fst f + 4 \<le> fst g) fs"
    and after: "\<And>g. g \<in> set fs \<Longrightarrow> fst f + 4 \<le> fst g"
    using Cons.prems by simp_all
  from Cons.IH [OF pre srt] obtain cg2 where
    p2: "resolve_loop fs cg1 = Some cg2" and l2: "labels cg2 = labels cg1"
    and n2: "code_pos cg2 = code_pos cg1"
    and v2: "\<And>g. g \<in> set fs \<Longrightarrow> take 4 (drop (fst g) (code cg2)) =
        (case find_label (labels cg1) (snd g) of
           None \<Rightarrow> take 4 (drop (fst g) (code cg1))
         | Some t \<Rightarrow> enc_i32 (fixup_offset t (fst g)))"
    and fr2: "\<And>q. (\<forall>g \<in> set fs. q + 4 \<le> fst g \<or> fst g + 4 \<le> q) \<Longrightarrow>
        take 4 (drop q (code cg2)) = take 4 (drop q (code cg1))"
    by blast
  have here: "take 4 (drop (fst f) (code cg2)) =
       (case find_label (labels cg) (snd f) of
          None \<Rightarrow> take 4 (drop (fst f) (code cg))
        | Some t \<Rightarrow> enc_i32 (fixup_offset t (fst f)))"
    using fr2 [of "fst f"] after v1 by simp
  have later: "take 4 (drop (fst g) (code cg2)) =
        (case find_label (labels cg) (snd g) of
           None \<Rightarrow> take 4 (drop (fst g) (code cg))
         | Some t \<Rightarrow> enc_i32 (fixup_offset t (fst g)))" if "g \<in> set fs" for g
    using v2 [OF that] fr1 [of "fst g"] after [OF that] l1 by (simp split: option.splits)
  have frame: "take 4 (drop q (code cg2)) = take 4 (drop q (code cg))"
    if "\<forall>g \<in> set (f # fs). q + 4 \<le> fst g \<or> fst g + 4 \<le> q" for q
    using that fr2 [of q] fr1 [of q] by simp
  show ?case
    using p1 p2 l1 l2 n1 n2 here later frame by auto
qed

lemma resolve_fixups_all_in:
  assumes inv: "fixups_inv cg"
      and cap: "\<forall>f \<in> set (fixups cg). fst f + 4 \<le> code_cap cg"
  shows "\<exists>cg'. resolve_fixups cg = Some cg' \<and>
     (\<forall>f \<in> set (fixups cg). take 4 (drop (fst f) (code cg')) =
        (case find_label (labels cg) (snd f) of
           None \<Rightarrow> [0, 0, 0, 0]
         | Some t \<Rightarrow> enc_i32 (fixup_offset t (fst f))))"
proof -
  have a: "\<forall>f \<in> set (fixups cg). fst f + 4 \<le> code_pos cg"
    and z: "\<forall>f \<in> set (fixups cg). take 4 (drop (fst f) (code cg)) = [0, 0, 0, 0]"
    using inv cap by (auto simp add: fixups_inv_def)
  have "sorted_wrt (\<lambda>f g. fst f + 4 \<le> code_cap cg \<longrightarrow> fst f + 4 \<le> fst g) (fixups cg)"
    using inv by (simp add: fixups_inv_def)
  then have b: "sorted_wrt (\<lambda>f g. fst f + 4 \<le> fst g) (fixups cg)"
    using cap by (simp add: sorted_wrt_iff_nth_less)
  from resolve_loop_in [OF a b] z show ?thesis
    unfolding resolve_fixups_def by (auto split: option.splits)
qed

lemma find_label_first:
  "j < length ls \<Longrightarrow> fst (ls ! j) = l \<Longrightarrow> \<forall>k<j. fst (ls ! k) \<noteq> l \<Longrightarrow>
   find_label ls l = Some (snd (ls ! j))"
proof (induction ls arbitrary: j)
  case Nil
  then show ?case by simp
next
  case (Cons a ls)
  obtain name pos where a: "a = (name, pos)"
    by (cases a)
  show ?case
  proof (cases j)
    case 0
    then show ?thesis using Cons.prems a by simp
  next
    case (Suc i)
    have "name \<noteq> l"
      using Cons.prems(3) Suc a by auto
    moreover have "find_label ls l = Some (snd (ls ! i))"
      using Cons.prems Suc by (intro Cons.IH) auto
    ultimately show ?thesis
      using a Suc by auto
  qed
qed

lemma find_label_none: "\<forall>j<length ls. fst (ls ! j) \<noteq> l \<Longrightarrow> find_label ls l = None"
proof (induction ls)
  case Nil
  then show ?case by simp
next
  case (Cons a ls)
  obtain name pos where a: "a = (name, pos)"
    by (cases a)
  have "name \<noteq> l"
    using Cons.prems a by auto
  moreover have "find_label ls l = None"
    using Cons.prems by (intro Cons.IH) auto
  ultimately show ?case
    using a by auto
qed

lemma sint_fixup_offset:
  assumes "t \<le> MAX_CODE" and "p \<le> MAX_CODE"
  shows "sint (fixup_offset t p) = int t - (int p + 4)"
proof -
  define x where "x = int t - int p - 4"
  have "- (2 ^ 31) \<le> x" "x < 2 ^ 31"
    using assms by (simp_all add: MAX_CODE_def x_def)
  then have "signed_take_bit 31 x = x"
    by (rule signed_take_bit_int_eq_self)
  moreover have "sint (word_of_int x :: u32) = signed_take_bit 31 x"
    by (simp add: sint_sbintrunc')
  ultimately have "sint (word_of_int x :: u32) = x"
    by simp
  then show ?thesis
    unfolding fixup_offset_def x_def by (simp add: algebra_simps)
qed

theorem resolve_fixups_within_capacity:
  assumes "cg = do_calls codegen_init calls"
      and "\<forall>f \<in> set (fixups cg). fst f + 4 \<le> code_cap cg"
      and "(p, l) \<in> set (fixups cg)"
  shows "\<exists>cg'. resolve_fixups cg = Some cg' \<and>
     (\<forall>j < length (labels cg).
        fst (labels cg ! j) = l \<and> (\<forall>k < j. fst (labels cg ! k) \<noteq> l) \<longrightarrow>
        sint (de_le (take 4 (drop p (code cg'))) :: u32) = int (snd (labels cg ! j)) - (int p + 4)) \<and>
     ((\<forall>j < length (labels cg). fst (labels cg ! j) \<noteq> l) \<longrightarrow>
        take 4 (drop p (code cg')) = [0, 0, 0, 0])"
proof -
  have inv: "fixups_inv cg"
    using assms(1) fixups_inv_init by (simp add: fixups_inv_do_calls)
  have capv: "code_cap cg = MAX_CODE"
    using assms(1) by (simp add: codegen_init_def)
  from resolve_fixups_all_in [OF inv assms(2)] obtain cg' where
    r: "resolve_fixups cg = Some cg'"
    and every: "\<forall>f \<in> set (fixups cg). take 4 (drop (fst f) (code cg')) =
        (case find_label (labels cg) (snd f) of
           None \<Rightarrow> [0, 0, 0, 0]
         | Some t \<Rightarrow> enc_i32 (fixup_offset t (fst f)))"
    by blast
  have v: "take 4 (drop p (code cg')) =
        (case find_label (labels cg) l of
           None \<Rightarrow> [0, 0, 0, 0]
         | Some t \<Rightarrow> enc_i32 (fixup_offset t p))"
    using bspec [OF every assms(3)] by (simp cong: option.case_cong)
  have pb: "p \<le> MAX_CODE"
    using assms(2,3) capv by fastforce
  have first: "sint (de_le (take 4 (drop p (code cg'))) :: u32) = int (snd (labels cg ! j)) - (int p + 4)"
    if "j < length (labels cg)" "fst (labels cg ! j) = l" "\<forall>k < j. fst (labels cg ! k) \<noteq> l" for j
  proof -
    have "snd (labels cg ! j) \<le> code_pos cg"
      using inv that(1) by (simp add: fixups_inv_def)
    moreover have "code_pos cg \<le> MAX_CODE"
      using inv capv by (simp add: fixups_inv_def)
    ultimately have "snd (labels cg ! j) \<le> MAX_CODE"
      by simp
    then show ?thesis
      using v find_label_first [OF that] pb by (simp add: de_le_enc_i32 sint_fixup_offset)
  qed
  have none: "take 4 (drop p (code cg')) = [0, 0, 0, 0]"
    if "\<forall>j < length (labels cg). fst (labels cg ! j) \<noteq> l"
    using v find_label_none [OF that] by simp
  show ?thesis
    using r first none by blast
qed

theorem resolve_fixups_at_capacity:
  "resolve_fixups
     (do_calls codegen_init
        [Emit_bytes (replicate MAX_CODE 0x90), Add_label ''_loop_start_0'',
         Emit_byte 0xe9, Add_fixup ''_loop_start_0'']) = None"
  by (simp add: do_calls_def emit_bytes_eq emit_byte_def add_label_def add_fixup_def emit_u32_def
      codegen_init_def MAX_LABELS_def resolve_fixups_def patch_fixup_def poke_code_def)

section \<open>The ELF program header\<close>

lemma de_le_bytes_from:
  "de_le (map (\<lambda>k. ucast (drop_bit (8 * k) v)) [i..<i + n]) = take_bit (8 * n) (drop_bit (8 * i) (v::u64))"
proof (induction n arbitrary: i)
  case 0
  then show ?case by (simp add: de_le_def)
next
  case (Suc n)
  have up: "[i..<i + Suc n] = i # [Suc i..<Suc i + n]"
    by (simp add: upt_rec)
  have "de_le (map (\<lambda>k. ucast (drop_bit (8 * k) v)) [i..<i + Suc n]) =
        ucast (ucast (drop_bit (8 * i) v) :: u8) OR push_bit 8 (take_bit (8 * n) (drop_bit (8 * Suc i) v))"
    unfolding up using Suc.IH [of "Suc i"] by (simp add: de_le_def)
  also have "\<dots> = take_bit (8 * Suc n) (drop_bit (8 * i) v)"
    by (rule bit_word_eqI) (auto simp add: bit_simps)
  finally show ?case .
qed

lemma de_le_le_bytes: "de_le (le_bytes 8 v) = v"
  using de_le_bytes_from [of v 0 8] by (simp add: le_bytes_def take_bit_word_eq_self)

lemma length_le_bytes [simp]: "length (le_bytes n v) = n"
  by (simp add: le_bytes_def)

lemma length_memcpy_at [simp]: "off + length bs \<le> length dst \<Longrightarrow> length (memcpy_at dst off bs) = length dst"
  by (simp add: memcpy_at_def)

lemma memcpy_at_read: "off + length bs \<le> length dst \<Longrightarrow> take (length bs) (drop off (memcpy_at dst off bs)) = bs"
  by (simp add: memcpy_at_def)

lemma memcpy_at_other:
  assumes "off + length bs \<le> length dst" and "q + n \<le> off"
  shows "take n (drop q (memcpy_at dst off bs)) = take n (drop q dst)"
proof -
  have l: "length (take off dst) = off"
    using assms by simp
  have "take n (drop q (memcpy_at dst off bs)) = take n (drop q (take off dst))"
    unfolding memcpy_at_def using assms l by simp
  also have "\<dots> = take n (take (off - q) (drop q dst))"
    by (simp add: drop_take)
  also have "\<dots> = take n (drop q dst)"
    using assms by (simp add: min_absorb1)
  finally show ?thesis .
qed

lemma length_elf_ehdr [simp]: "length elf_ehdr = 64"
  by (simp add: elf_ehdr_def Let_def)

lemma length_elf_phdr [simp]: "length (elf_phdr cg) = 56"
  by (simp add: elf_phdr_def Let_def)

lemma phdr_filesz: "take 8 (drop 32 (elf_phdr cg)) = le_bytes 8 (elf_file_size cg)"
  unfolding elf_phdr_def Let_def
  using memcpy_at_read [of 32 "le_bytes 8 (elf_file_size cg)"]
  by (simp add: memcpy_at_other)

lemma phdr_memsz: "take 8 (drop 40 (elf_phdr cg)) = le_bytes 8 (elf_mem_size cg)"
  unfolding elf_phdr_def Let_def
  using memcpy_at_read [of 40 "le_bytes 8 (elf_mem_size cg)"]
  by (simp add: memcpy_at_other)

lemma file_phdr: "write_elf cg True = Some (file, m) \<Longrightarrow> take 56 (drop 64 file) = elf_phdr cg"
  by (auto simp add: write_elf_def)

end
